theory Spec2Isabelle
  imports Main
begin

section \<open>Errors, tables and the calls a request issues\<close>

text \<open>
  The handlers are asynchronous TypeScript methods that run one database call after the
  other.  Each is embedded as a function from the state before the request to a result
  and the state after it.  A raised exception is the left summand of the result:
  \<open>Error msg\<close> is \<^verbatim>\<open>throw new Error(msg)\<close>, \<open>TypeError\<close> is what the runtime raises when
  a property of \<^verbatim>\<open>undefined\<close> is read or destructured, and \<open>Rethrown e\<close> is
  \<^verbatim>\<open>throw Error(e)\<close> in a \<^verbatim>\<open>catch (e)\<close> block.
\<close>

datatype error = Error string | TypeError | Rethrown error

datatype table = ProductTable | ProductCategoryTable | ProductSizeTable | StoreTable | StoreColorTable

datatype call =
    BeginTransaction | CommitTransaction | RollbackTransaction
  | InsertOne table | Delete table | Update table

text \<open>
  Modelled from the spec: the entity models (\<^verbatim>\<open>models/product\<close>, \<^verbatim>\<open>models/store\<close>)
  are not among the sources.  The records below have the fields the handlers read and
  write and the attributes the spec's data model lists.

  Rows of the Brand, Category and Size tables: an id and a name.
\<close>

record Reference =
  ref_id :: nat
  ref_name :: string

text \<open>
  A product row.  The scalar attributes other than the keys (name, price, stock counters,
  description, ...) are what the source calls \<^verbatim>\<open>...rest\<close>; they are carried as one value
  of an arbitrary type.
\<close>

record 'a ProductDB =
  prod_id :: nat
  prod_storeId :: nat
  prod_brandId :: nat
  prod_rest :: 'a

record ProductCategory =
  pc_productId :: nat
  pc_categoryId :: nat

record ProductSize =
  ps_productId :: nat
  ps_sizeId :: nat

text \<open>The request body of product create and product update (\<^verbatim>\<open>ProductInterface\<close>).\<close>

record 'a ProductInterface =
  p_id :: nat
  p_storeId :: "nat option"
  p_brand :: string
  p_categories :: "string list"
  p_sizes :: "string list"
  p_rest :: 'a

text \<open>
  The object handed to \<^verbatim>\<open>update\<close> of the product repository: the id of the row and the
  columns to write.  A column that is absent from the object (\<open>None\<close>) is not written.
\<close>

record 'a ProductUpdate =
  u_id :: nat
  u_storeId :: "nat option"
  u_brandId :: "nat option"
  u_rest :: 'a

text \<open>What \<^verbatim>\<open>productRepo.getById\<close> returns: the row with its category and size names.\<close>

record 'a Product =
  g_row :: "'a ProductDB"
  g_categories :: "string list"
  g_sizes :: "string list"

record StoreRow =
  st_id :: nat
  st_name :: string
  st_managerId :: nat

record ColorInterface =
  hue :: nat
  sat :: nat
  light :: nat

record Colors =
  primary :: "ColorInterface option"
  secondary :: "ColorInterface option"

datatype ColorType = PRIMARY | SECONDARY

text \<open>
  A StoreColor row is the spread of a colour together with \<^verbatim>\<open>storeId\<close> and \<^verbatim>\<open>type\<close>;
  spreading an absent colour leaves hue, sat and light out of the row (\<open>None\<close>).
\<close>

record StoreColor =
  sc_id :: nat
  sc_storeId :: nat
  sc_type :: ColorType
  sc_color :: "ColorInterface option"

text \<open>The request body of store create and store update (\<^verbatim>\<open>StoreInterface\<close>).\<close>

record StoreInterface =
  s_name :: string
  s_managerId :: nat
  s_colors :: "Colors option"

record 'a tables =
  brandT :: "Reference list"
  categoryT :: "Reference list"
  sizeT :: "Reference list"
  productT :: "'a ProductDB list"
  productSeq :: nat
  productCategoryT :: "ProductCategory list"
  productSizeT :: "ProductSize list"
  storeT :: "StoreRow list"
  storeSeq :: nat
  storeColorT :: "StoreColor list"
  storeColorSeq :: nat

text \<open>
  The state of a request: the tables as the connection sees them, the tables as they were
  when the open Unit-of-Work scope began (\<open>None\<close> when no scope is open), and every
  Unit-of-Work call and table write issued so far, oldest first.
\<close>

record 'a state =
  tables :: "'a tables"
  scope :: "'a tables option"
  calls :: "call list"

section \<open>Collaborators that are not among the sources\<close>

subsection \<open>Unit of Work\<close>

text \<open>
  Modelled from the spec: \<^verbatim>\<open>core/unitofwork/unitofwork\<close> is not among the sources.
  \<^verbatim>\<open>beginTransaction()\<close> starts a scope on the active database connection.
\<close>

definition beginTransaction :: "'a state \<Rightarrow> 'a state" where
  "beginTransaction s = s\<lparr>scope := Some (tables s), calls := calls s @ [BeginTransaction]\<rparr>"

text \<open>
  Modelled from the spec: \<^verbatim>\<open>commitTransaction()\<close> finalizes all writes since the last
  begin.  The writes are already in the tables; the scope is closed.
\<close>

definition commitTransaction :: "'a state \<Rightarrow> 'a state" where
  "commitTransaction s = s\<lparr>scope := None, calls := calls s @ [CommitTransaction]\<rparr>"

text \<open>
  Modelled from the spec: \<^verbatim>\<open>rollbackTransaction()\<close> discards all writes since the last
  begin, and after a rollback the scope is closed.
\<close>

definition rollbackTransaction :: "'a state \<Rightarrow> 'a state" where
  "rollbackTransaction s =
     s\<lparr>tables := (case scope s of None \<Rightarrow> tables s | Some t \<Rightarrow> t),
       scope := None,
       calls := calls s @ [RollbackTransaction]\<rparr>"

subsection \<open>Repositories\<close>

text \<open>
  Modelled from the spec: the generic repository base (\<^verbatim>\<open>find\<close>, \<^verbatim>\<open>insertOne\<close>,
  \<^verbatim>\<open>update\<close>, \<^verbatim>\<open>delete\<close>, \<^verbatim>\<open>getById\<close>) is not among the sources.
  \<^verbatim>\<open>find(criteria)\<close> returns the ordered sequence of the rows that match; for the
  reference repositories the criterion is the exact name.
\<close>

definition find_name :: "Reference list \<Rightarrow> string \<Rightarrow> Reference list" where
  "find_name rows n = filter (\<lambda>r. ref_name r = n) rows"

text \<open>Modelled from the spec: \<^verbatim>\<open>brandRepo.find({ name })\<close>.\<close>

definition brandRepo_find :: "'a tables \<Rightarrow> string \<Rightarrow> Reference list" where
  "brandRepo_find t n = find_name (brandT t) n"

text \<open>Modelled from the spec: \<^verbatim>\<open>categoryRepo.find({ name })\<close>.\<close>

definition categoryRepo_find :: "'a tables \<Rightarrow> string \<Rightarrow> Reference list" where
  "categoryRepo_find t n = find_name (categoryT t) n"

text \<open>Modelled from the spec: \<^verbatim>\<open>sizeRepo.find({ name })\<close>.\<close>

definition sizeRepo_find :: "'a tables \<Rightarrow> string \<Rightarrow> Reference list" where
  "sizeRepo_find t n = find_name (sizeT t) n"

text \<open>
  Modelled from the spec: \<^verbatim>\<open>insertOne(row)\<close> appends the row and returns its
  \<^verbatim>\<open>insertId\<close>, which the table's sequence supplies.  This is \<^verbatim>\<open>insertOne\<close> of the
  product table.
\<close>

definition productDBRepo_insertOne :: "'a ProductDB \<Rightarrow> 'a state \<Rightarrow> nat \<times> 'a state" where
  "productDBRepo_insertOne row s =
     (let t = tables s; insertId = productSeq t in
      (insertId,
       s\<lparr>tables := t\<lparr>productT := productT t @ [row\<lparr>prod_id := insertId\<rparr>],
                       productSeq := Suc insertId\<rparr>,
         calls := calls s @ [InsertOne ProductTable]\<rparr>))"

text \<open>
  Modelled from the spec: \<^verbatim>\<open>update(entity)\<close> writes the columns present in the entity
  into the row that has the entity's id.  One row of the product table is written so:
\<close>

definition write_product :: "'a ProductUpdate \<Rightarrow> 'a ProductDB \<Rightarrow> 'a ProductDB" where
  "write_product u row =
     row\<lparr>prod_storeId := (case u_storeId u of None \<Rightarrow> prod_storeId row | Some v \<Rightarrow> v),
         prod_brandId := (case u_brandId u of None \<Rightarrow> prod_brandId row | Some v \<Rightarrow> v),
         prod_rest := u_rest u\<rparr>"

text \<open>Modelled from the spec: \<^verbatim>\<open>update\<close> of the product table.\<close>

definition productDBRepo_update :: "'a ProductUpdate \<Rightarrow> 'a state \<Rightarrow> 'a state" where
  "productDBRepo_update u s =
     (let t = tables s in
      s\<lparr>tables := t\<lparr>productT :=
             map (\<lambda>row. if prod_id row = u_id u then write_product u row else row) (productT t)\<rparr>,
        calls := calls s @ [Update ProductTable]\<rparr>)"

text \<open>Modelled from the spec: \<^verbatim>\<open>insertOne\<close> of the ProductCategory join table.\<close>

definition productCategoryRepo_insertOne :: "ProductCategory \<Rightarrow> 'a state \<Rightarrow> 'a state" where
  "productCategoryRepo_insertOne row s =
     (let t = tables s in
      s\<lparr>tables := t\<lparr>productCategoryT := productCategoryT t @ [row]\<rparr>,
        calls := calls s @ [InsertOne ProductCategoryTable]\<rparr>)"

text \<open>Modelled from the spec: \<^verbatim>\<open>insertOne\<close> of the ProductSize join table.\<close>

definition productSizeRepo_insertOne :: "ProductSize \<Rightarrow> 'a state \<Rightarrow> 'a state" where
  "productSizeRepo_insertOne row s =
     (let t = tables s in
      s\<lparr>tables := t\<lparr>productSizeT := productSizeT t @ [row]\<rparr>,
        calls := calls s @ [InsertOne ProductSizeTable]\<rparr>)"

text \<open>
  Modelled from the spec: \<^verbatim>\<open>delete(criteria)\<close> removes the rows that match; the
  criterion of the join tables is the product id.
\<close>

definition productCategoryRepo_delete :: "nat \<Rightarrow> 'a state \<Rightarrow> 'a state" where
  "productCategoryRepo_delete productId s =
     (let t = tables s in
      s\<lparr>tables := t\<lparr>productCategoryT :=
             filter (\<lambda>j. pc_productId j \<noteq> productId) (productCategoryT t)\<rparr>,
        calls := calls s @ [Delete ProductCategoryTable]\<rparr>)"

text \<open>Modelled from the spec: \<^verbatim>\<open>delete({ productId })\<close> of the ProductSize join table.\<close>

definition productSizeRepo_delete :: "nat \<Rightarrow> 'a state \<Rightarrow> 'a state" where
  "productSizeRepo_delete productId s =
     (let t = tables s in
      s\<lparr>tables := t\<lparr>productSizeT :=
             filter (\<lambda>j. ps_productId j \<noteq> productId) (productSizeT t)\<rparr>,
        calls := calls s @ [Delete ProductSizeTable]\<rparr>)"

text \<open>
  Modelled from the spec: the product's currently persisted category names, in insertion
  order of the join rows (\<^verbatim>\<open>product.repository\<close> is not among the sources).
\<close>

definition category_names :: "'a tables \<Rightarrow> nat \<Rightarrow> string list" where
  "category_names t productId =
     concat (map (\<lambda>j. map ref_name (filter (\<lambda>c. ref_id c = pc_categoryId j) (categoryT t)))
                 (filter (\<lambda>j. pc_productId j = productId) (productCategoryT t)))"

text \<open>Modelled from the spec: the product's currently persisted size names, likewise.\<close>

definition size_names :: "'a tables \<Rightarrow> nat \<Rightarrow> string list" where
  "size_names t productId =
     concat (map (\<lambda>j. map ref_name (filter (\<lambda>c. ref_id c = ps_sizeId j) (sizeT t)))
                 (filter (\<lambda>j. ps_productId j = productId) (productSizeT t)))"

text \<open>
  Modelled from the spec: \<^verbatim>\<open>productRepo.getById\<close> fetches the row of the id with its
  persisted association names; it yields nothing when no row has the id.
\<close>

definition productRepo_getById :: "'a tables \<Rightarrow> nat \<Rightarrow> 'a Product option" where
  "productRepo_getById t i =
     (case filter (\<lambda>row. prod_id row = i) (productT t) of
        [] \<Rightarrow> None
      | row # _ \<Rightarrow>
          Some \<lparr>g_row = row, g_categories = category_names t i, g_sizes = size_names t i\<rparr>)"

text \<open>Modelled from the spec: \<^verbatim>\<open>storeRepo.find({ managerId })\<close>.\<close>

definition storeRepo_find :: "'a tables \<Rightarrow> nat \<Rightarrow> StoreRow list" where
  "storeRepo_find t managerId = filter (\<lambda>r. st_managerId r = managerId) (storeT t)"

text \<open>Modelled from the spec: \<^verbatim>\<open>storeRepo.getById\<close>.\<close>

definition storeRepo_getById :: "'a tables \<Rightarrow> nat \<Rightarrow> StoreRow option" where
  "storeRepo_getById t i =
     (case filter (\<lambda>r. st_id r = i) (storeT t) of [] \<Rightarrow> None | r # _ \<Rightarrow> Some r)"

text \<open>
  Modelled from the spec: \<^verbatim>\<open>insertOne\<close> of the store table; the colours have been
  deleted from the payload before the call.
\<close>

definition storeRepo_insertOne :: "StoreInterface \<Rightarrow> 'a state \<Rightarrow> nat \<times> 'a state" where
  "storeRepo_insertOne store s =
     (let t = tables s; insertId = storeSeq t in
      (insertId,
       s\<lparr>tables := t\<lparr>storeT := storeT t @
               [\<lparr>st_id = insertId, st_name = s_name store, st_managerId = s_managerId store\<rparr>],
             storeSeq := Suc insertId\<rparr>,
         calls := calls s @ [InsertOne StoreTable]\<rparr>))"

text \<open>
  Modelled from the spec: \<^verbatim>\<open>update\<close> of the store table, called with the payload
  without its colours and products, and with the id of the caller's store.
\<close>

definition storeRepo_update :: "StoreInterface \<Rightarrow> nat \<Rightarrow> 'a state \<Rightarrow> 'a state" where
  "storeRepo_update store i s =
     (let t = tables s in
      s\<lparr>tables := t\<lparr>storeT :=
             map (\<lambda>r. if st_id r = i
                       then r\<lparr>st_name := s_name store, st_managerId := s_managerId store\<rparr>
                       else r) (storeT t)\<rparr>,
        calls := calls s @ [Update StoreTable]\<rparr>)"

text \<open>Modelled from the spec: \<^verbatim>\<open>storeColorRepo.find({ storeId, type })\<close>.\<close>

definition storeColorRepo_find :: "'a tables \<Rightarrow> nat \<Rightarrow> ColorType \<Rightarrow> StoreColor list" where
  "storeColorRepo_find t storeId ty =
     filter (\<lambda>c. sc_storeId c = storeId \<and> sc_type c = ty) (storeColorT t)"

text \<open>Modelled from the spec: \<^verbatim>\<open>insertOne\<close> of the StoreColor table.\<close>

definition storeColorRepo_insertOne :: "StoreColor \<Rightarrow> 'a state \<Rightarrow> nat \<times> 'a state" where
  "storeColorRepo_insertOne row s =
     (let t = tables s; insertId = storeColorSeq t in
      (insertId,
       s\<lparr>tables := t\<lparr>storeColorT := storeColorT t @ [row\<lparr>sc_id := insertId\<rparr>],
                       storeColorSeq := Suc insertId\<rparr>,
         calls := calls s @ [InsertOne StoreColorTable]\<rparr>))"

text \<open>
  Modelled from the spec: \<^verbatim>\<open>update\<close> of the StoreColor table, called with the spread of
  a colour and the id of the row: hue, sat and light are written, nothing else.
\<close>

definition storeColorRepo_update :: "ColorInterface \<Rightarrow> nat \<Rightarrow> 'a state \<Rightarrow> 'a state" where
  "storeColorRepo_update color i s =
     (let t = tables s in
      s\<lparr>tables := t\<lparr>storeColorT :=
             map (\<lambda>c. if sc_id c = i then c\<lparr>sc_color := Some color\<rparr> else c) (storeColorT t)\<rparr>,
        calls := calls s @ [Update StoreColorTable]\<rparr>)"

section \<open>ProductDBRepository\<close>

text \<open>
  \<^verbatim>\<open>if (!brandName)\<close>: the value tested is the array \<^verbatim>\<open>find\<close> returned, and every
  array, the empty one too, is truthy.
\<close>

definition falsy_array :: "'b list \<Rightarrow> bool" where
  "falsy_array xs = False"

text \<open>
  The loop \<^verbatim>\<open>for (const category of categories)\<close>, which \<^verbatim>\<open>insertProduct\<close> and
  \<^verbatim>\<open>updateProduct\<close> both run with the same body.
\<close>

fun insertCategories :: "nat \<Rightarrow> string list \<Rightarrow> 'a state \<Rightarrow> (error + unit) \<times> 'a state" where
  "insertCategories productId [] s = (Inr (), s)"
| "insertCategories productId (category # categories) s =
     (let categoryResponse = categoryRepo_find (tables s) category in
      if length categoryResponse < 1 then (Inl (Error ''Invalid category''), s)
      else case categoryResponse of
             [] \<Rightarrow> (Inl TypeError, s)
           | c # _ \<Rightarrow>
               insertCategories productId categories
                 (productCategoryRepo_insertOne
                    \<lparr>pc_productId = productId, pc_categoryId = ref_id c\<rparr> s))"

fun insertSizes :: "nat \<Rightarrow> string list \<Rightarrow> 'a state \<Rightarrow> (error + unit) \<times> 'a state" where
  "insertSizes productId [] s = (Inr (), s)"
| "insertSizes productId (sz # sizes) s =
     (let sizeResponse = sizeRepo_find (tables s) sz in
      if length sizeResponse < 1 then (Inl (Error ''Invalid size''), s)
      else case sizeResponse of
             [] \<Rightarrow> (Inl TypeError, s)
           | c # _ \<Rightarrow>
               insertSizes productId sizes
                 (productSizeRepo_insertOne \<lparr>ps_productId = productId, ps_sizeId = ref_id c\<rparr> s))"

definition insertProduct :: "'a ProductInterface \<Rightarrow> nat \<Rightarrow> 'a state \<Rightarrow> (error + nat) \<times> 'a state" where
  "insertProduct product i s =
     (let brandName = brandRepo_find (tables s) (p_brand product) in
      if falsy_array brandName then (Inl (Error ''No brand with that name''), s)
      else case brandName of
             [] \<Rightarrow> (Inl TypeError, s)
           | b # _ \<Rightarrow>
               (case productDBRepo_insertOne
                       \<lparr>prod_id = p_id product, prod_storeId = i, prod_brandId = ref_id b,
                        prod_rest = p_rest product\<rparr> s of
                  (insertId, s1) \<Rightarrow>
                    if insertId = 0 then (Inl (Error ''Product creation failed''), s1)
                    else (case insertCategories insertId (p_categories product) s1 of
                            (Inl e, s2) \<Rightarrow> (Inl e, s2)
                          | (Inr _, s2) \<Rightarrow>
                              (case insertSizes insertId (p_sizes product) s2 of
                                 (Inl e, s3) \<Rightarrow> (Inl e, s3)
                               | (Inr _, s3) \<Rightarrow> (Inr insertId, s3)))))"

text \<open>
  \<^verbatim>\<open>xs[index]\<close> is \<^verbatim>\<open>undefined\<close> (\<open>None\<close>) out of range, and
  \<^verbatim>\<open>xs.some((val, index) => ...)\<close> tests the elements with their positions.
\<close>

definition at_index :: "'b list \<Rightarrow> nat \<Rightarrow> 'b option" where
  "at_index xs i = (if i < length xs then Some (xs ! i) else None)"

definition some_indexed :: "('b \<Rightarrow> nat \<Rightarrow> bool) \<Rightarrow> 'b list \<Rightarrow> bool" where
  "some_indexed f xs = list_ex (\<lambda>(index, val). f val index) (enumerate 0 xs)"

text \<open>
  The condition of both reconciliation blocks:
  \<^verbatim>\<open>desired.length !== persisted.length || desired.some((val, index) => val !== persisted[index])\<close>.
\<close>

definition changed :: "string list \<Rightarrow> string list \<Rightarrow> bool" where
  "changed desired persisted =
     (length desired \<noteq> length persisted \<or>
      some_indexed (\<lambda>val index. Some val \<noteq> at_index persisted index) desired)"

text \<open>The block that reconciles the categories, and the one that reconciles the sizes.\<close>

definition reconcileCategories ::
  "nat \<Rightarrow> string list \<Rightarrow> string list \<Rightarrow> 'a state \<Rightarrow> (error + unit) \<times> 'a state" where
  "reconcileCategories entityId desired persisted s =
     (if changed desired persisted
      then insertCategories entityId desired (productCategoryRepo_delete entityId s)
      else (Inr (), s))"

definition reconcileSizes ::
  "nat \<Rightarrow> string list \<Rightarrow> string list \<Rightarrow> 'a state \<Rightarrow> (error + unit) \<times> 'a state" where
  "reconcileSizes entityId desired persisted s =
     (if changed desired persisted
      then insertSizes entityId desired (productSizeRepo_delete entityId s)
      else (Inr (), s))"

definition updateProduct :: "'a ProductInterface \<Rightarrow> 'a state \<Rightarrow> (error + unit) \<times> 'a state" where
  "updateProduct entity s =
     (let rest = \<lparr>u_id = p_id entity, u_storeId = p_storeId entity, u_brandId = None,
                  u_rest = p_rest entity\<rparr>;
          brandName = brandRepo_find (tables s) (p_brand entity);
          rest = rest\<lparr>u_storeId := None\<rparr>
      in case brandName of
           [] \<Rightarrow> (Inl TypeError, s)
         | b # _ \<Rightarrow>
             (let s1 = productDBRepo_update (rest\<lparr>u_brandId := Some (ref_id b)\<rparr>) s in
              case productRepo_getById (tables s1) (p_id entity) of
                None \<Rightarrow> (Inl (Error ''Product not found''), s1)
              | Some product \<Rightarrow>
                  (case reconcileCategories (p_id entity) (p_categories entity)
                          (g_categories product) s1 of
                     (Inl e, s2) \<Rightarrow> (Inl e, s2)
                   | (Inr _, s2) \<Rightarrow>
                       reconcileSizes (p_id entity) (p_sizes entity) (g_sizes product) s2)))"

section \<open>ProductController\<close>

fun post_loop ::
  "nat \<Rightarrow> 'a ProductInterface list \<Rightarrow> 'a Product option list \<Rightarrow> 'a state
     \<Rightarrow> (error + 'a Product option list) \<times> 'a state" where
  "post_loop i [] resultProducts s = (Inr resultProducts, s)"
| "post_loop i (product # products) resultProducts s =
     (case insertProduct product i s of
        (Inl e, s1) \<Rightarrow> (Inl e, s1)
      | (Inr insertId, s1) \<Rightarrow>
          post_loop i products
            (resultProducts @ [productRepo_getById (tables s1) insertId]) s1)"

text \<open>\<^verbatim>\<open>post\<close>; \<open>idManager\<close> is the id of the authenticated caller.\<close>

definition ProductController_post ::
  "nat \<Rightarrow> 'a ProductInterface list \<Rightarrow> 'a state
     \<Rightarrow> (error + 'a Product option list) \<times> 'a state" where
  "ProductController_post idManager products s =
     (case storeRepo_find (tables s) idManager of
        [] \<Rightarrow> (Inl TypeError, s)
      | st # _ \<Rightarrow>
          if st_id st = 0 then (Inl (Error ''Store not found''), s)
          else (case post_loop (st_id st) products [] (beginTransaction s) of
                  (Inl e, s1) \<Rightarrow>
                    (Inl (Rethrown e), commitTransaction (rollbackTransaction s1))
                | (Inr resultProducts, s1) \<Rightarrow> (Inr resultProducts, commitTransaction s1)))"

definition ProductController_update ::
  "'a ProductInterface \<Rightarrow> 'a state \<Rightarrow> (error + 'a Product option) \<times> 'a state" where
  "ProductController_update entity s =
     (case updateProduct entity (beginTransaction s) of
        (Inl e, s1) \<Rightarrow> (Inl (Rethrown e), commitTransaction (rollbackTransaction s1))
      | (Inr _, s1) \<Rightarrow>
          (let s2 = commitTransaction s1 in
           (Inr (productRepo_getById (tables s2) (p_id entity)), s2)))"

section \<open>StoreController\<close>

definition createStore :: "StoreInterface \<Rightarrow> 'a state \<Rightarrow> StoreRow option \<times> 'a state" where
  "createStore store s =
     (let colors = s_colors store in
      case storeRepo_insertOne store s of
        (insertId, s1) \<Rightarrow>
          (let colors =
                 (case colors of
                    None \<Rightarrow>
                      \<lparr>primary = Some \<lparr>hue = 12, sat = 12, light = 12\<rparr>,
                       secondary = Some \<lparr>hue = 240, sat = 240, light = 240\<rparr>\<rparr>
                  | Some c \<Rightarrow> c);
               primaryRow = \<lparr>sc_id = 0, sc_storeId = insertId, sc_type = PRIMARY,
                             sc_color = primary colors\<rparr>;
               secondaryRow = \<lparr>sc_id = 0, sc_storeId = insertId, sc_type = SECONDARY,
                               sc_color = secondary colors\<rparr>
           in case storeColorRepo_insertOne primaryRow s1 of
                (_, s2) \<Rightarrow>
                  (case storeColorRepo_insertOne secondaryRow s2 of
                     (_, s3) \<Rightarrow> (storeRepo_getById (tables s3) insertId, s3))))"

text \<open>
  One of the two colour blocks of \<^verbatim>\<open>update\<close>: when the payload has the colour, the
  first row of that type of the store is looked up and updated.
\<close>

definition update_color ::
  "nat \<Rightarrow> ColorType \<Rightarrow> ColorInterface option \<Rightarrow> 'a state \<Rightarrow> (error + unit) \<times> 'a state" where
  "update_color idStore ty color s =
     (case color of
        None \<Rightarrow> (Inr (), s)
      | Some c \<Rightarrow>
          (case storeColorRepo_find (tables s) idStore ty of
             [] \<Rightarrow> (Inl TypeError, s)
           | row # _ \<Rightarrow> (Inr (), storeColorRepo_update c (sc_id row) s)))"

text \<open>\<^verbatim>\<open>update\<close> of the store controller; \<open>idManager\<close> is the authenticated caller.\<close>

definition StoreController_update ::
  "nat \<Rightarrow> StoreInterface \<Rightarrow> 'a state \<Rightarrow> (error + unit) \<times> 'a state" where
  "StoreController_update idManager store s =
     (case storeRepo_find (tables s) idManager of
        [] \<Rightarrow> (Inl TypeError, s)
      | st # _ \<Rightarrow>
          (let idStore = st_id st;
               colors = s_colors store;
               s1 = storeRepo_update store idStore s
           in case colors of
                None \<Rightarrow> (Inl TypeError, s1)
              | Some c \<Rightarrow>
                  (case update_color idStore PRIMARY (primary c) s1 of
                     (Inl e, s2) \<Rightarrow> (Inl e, s2)
                   | (Inr _, s2) \<Rightarrow> update_color idStore SECONDARY (secondary c) s2)))"

section \<open>Notions the properties are stated with\<close>

text \<open>
  The first id \<^verbatim>\<open>find\<close> by exact name yields, and the ids of the longest prefix of
  a list of names in which every name has a row.
\<close>

definition resolve :: "Reference list \<Rightarrow> string \<Rightarrow> nat option" where
  "resolve rows n = (case find_name rows n of [] \<Rightarrow> None | r # _ \<Rightarrow> Some (ref_id r))"

fun resolved_prefix :: "Reference list \<Rightarrow> string list \<Rightarrow> nat list" where
  "resolved_prefix rows [] = []"
| "resolved_prefix rows (n # ns) =
     (case resolve rows n of None \<Rightarrow> [] | Some i \<Rightarrow> i # resolved_prefix rows ns)"

text \<open>
  A create payload that names a brand, a category or a size of which no row exists.
\<close>

definition unresolved :: "'a tables \<Rightarrow> 'a ProductInterface \<Rightarrow> bool" where
  "unresolved t product =
     (brandRepo_find t (p_brand product) = [] \<or>
      list_ex (\<lambda>n. categoryRepo_find t n = []) (p_categories product) \<or>
      list_ex (\<lambda>n. sizeRepo_find t n = []) (p_sizes product))"

text \<open>The calls that go to the Unit of Work.\<close>

definition is_uow :: "call \<Rightarrow> bool" where
  "is_uow c = (c = BeginTransaction \<or> c = CommitTransaction \<or> c = RollbackTransaction)"

text \<open>
  The colour rows of a store, and the colour invariant of the data model for one store:
  no row or exactly two, at most one of each type.
\<close>

definition store_colors :: "'a tables \<Rightarrow> nat \<Rightarrow> StoreColor list" where
  "store_colors t i = filter (\<lambda>c. sc_storeId c = i) (storeColorT t)"

definition colors_ok :: "'a tables \<Rightarrow> nat \<Rightarrow> bool" where
  "colors_ok t i =
     ((length (store_colors t i) = 0 \<or> length (store_colors t i) = 2) \<and>
      length (filter (\<lambda>c. sc_type c = PRIMARY) (store_colors t i)) \<le> 1 \<and>
      length (filter (\<lambda>c. sc_type c = SECONDARY) (store_colors t i)) \<le> 1)"

text \<open>The store sequence is ahead of every store id a colour row refers to.\<close>

definition store_seq_ahead :: "'a tables \<Rightarrow> bool" where
  "store_seq_ahead t = list_all (\<lambda>c. sc_storeId c < storeSeq t) (storeColorT t)"

text \<open>
  A sequence of store create and store update requests, each run to its end, whether it
  returns or raises.
\<close>

datatype store_request = Create StoreInterface | UpdateBy nat StoreInterface

fun store_request_step :: "store_request \<Rightarrow> 'a state \<Rightarrow> 'a state" where
  "store_request_step (Create store) s = snd (createStore store s)"
| "store_request_step (UpdateBy idManager store) s =
     snd (StoreController_update idManager store s)"

section \<open>Scenario data\<close>

text \<open>
  The data of the spec's scenarios: brand Nike, categories Shoes and Sale, size M, and one
  store, managed by user 7, that has no colour rows.
\<close>

definition shop :: "string state" where
  "shop =
     \<lparr>tables =
        \<lparr>brandT = [\<lparr>ref_id = 1, ref_name = ''Nike''\<rparr>],
         categoryT = [\<lparr>ref_id = 1, ref_name = ''Shoes''\<rparr>, \<lparr>ref_id = 2, ref_name = ''Sale''\<rparr>],
         sizeT = [\<lparr>ref_id = 1, ref_name = ''M''\<rparr>],
         productT = [],
         productSeq = 1,
         productCategoryT = [],
         productSizeT = [],
         storeT = [\<lparr>st_id = 1, st_name = ''Orange'', st_managerId = 7\<rparr>],
         storeSeq = 2,
         storeColorT = [],
         storeColorSeq = 1\<rparr>,
      scope = None,
      calls = []\<rparr>"

definition sneaker :: "string ProductInterface" where
  "sneaker =
     \<lparr>p_id = 1, p_storeId = None, p_brand = ''Nike'', p_categories = [''Shoes'', ''Sale''],
      p_sizes = [''M''], p_rest = ''Air''\<rparr>"

text \<open>The shop after the create request of the spec's first scenario.\<close>

definition stocked :: "string state" where
  "stocked = snd (ProductController_post 7 [sneaker] shop)"

text \<open>
  Four store requests: a create without colours, an update of the new store's primary
  colour by its manager (user 8), an update by the manager of the first store (user 7),
  and a create with colours.
\<close>

definition store_requests :: "store_request list" where
  "store_requests =
     [Create \<lparr>s_name = ''Lime'', s_managerId = 8, s_colors = None\<rparr>,
      UpdateBy 8 \<lparr>s_name = ''Lime'', s_managerId = 8,
        s_colors = Some \<lparr>primary = Some \<lparr>hue = 1, sat = 2, light = 3\<rparr>, secondary = None\<rparr>\<rparr>,
      UpdateBy 7 \<lparr>s_name = ''Orange'', s_managerId = 7,
        s_colors = Some \<lparr>primary = Some \<lparr>hue = 1, sat = 2, light = 3\<rparr>, secondary = None\<rparr>\<rparr>,
      Create \<lparr>s_name = ''Plum'', s_managerId = 9,
        s_colors = Some \<lparr>primary = Some \<lparr>hue = 4, sat = 5, light = 6\<rparr>,
                         secondary = Some \<lparr>hue = 7, sat = 8, light = 9\<rparr>\<rparr>\<rparr>]"

section \<open>Simplification sets\<close>

lemmas uow_defs = beginTransaction_def commitTransaction_def rollbackTransaction_def

lemmas repo_defs =
  find_name_def brandRepo_find_def categoryRepo_find_def sizeRepo_find_def
  productDBRepo_insertOne_def write_product_def productDBRepo_update_def
  productCategoryRepo_insertOne_def productSizeRepo_insertOne_def
  productCategoryRepo_delete_def productSizeRepo_delete_def
  category_names_def size_names_def productRepo_getById_def storeRepo_find_def
  storeRepo_getById_def storeRepo_insertOne_def storeRepo_update_def storeColorRepo_find_def
  storeColorRepo_insertOne_def storeColorRepo_update_def

lemma stocked_eq:
  "stocked =
     \<lparr>tables =
        \<lparr>brandT = [\<lparr>ref_id = 1, ref_name = ''Nike''\<rparr>],
         categoryT = [\<lparr>ref_id = 1, ref_name = ''Shoes''\<rparr>, \<lparr>ref_id = 2, ref_name = ''Sale''\<rparr>],
         sizeT = [\<lparr>ref_id = 1, ref_name = ''M''\<rparr>],
         productT = [\<lparr>prod_id = 1, prod_storeId = 1, prod_brandId = 1, prod_rest = ''Air''\<rparr>],
         productSeq = 2,
         productCategoryT = [\<lparr>pc_productId = 1, pc_categoryId = 1\<rparr>,
                             \<lparr>pc_productId = 1, pc_categoryId = 2\<rparr>],
         productSizeT = [\<lparr>ps_productId = 1, ps_sizeId = 1\<rparr>],
         storeT = [\<lparr>st_id = 1, st_name = ''Orange'', st_managerId = 7\<rparr>],
         storeSeq = 2,
         storeColorT = [],
         storeColorSeq = 1\<rparr>,
      scope = None,
      calls = [BeginTransaction, InsertOne ProductTable, InsertOne ProductCategoryTable,
               InsertOne ProductCategoryTable, InsertOne ProductSizeTable, CommitTransaction]\<rparr>"
  by (simp add: stocked_def ProductController_post_def insertProduct_def falsy_array_def
      uow_defs repo_defs sneaker_def shop_def Let_def)

section \<open>What the two insertion loops do\<close>

lemma resolved_prefix_takeWhile:
  "map Some (resolved_prefix rows names) =
     takeWhile (\<lambda>r. r \<noteq> None) (map (resolve rows) names)"
  by (induction names) (auto split: option.splits)

lemma length_resolved_prefix: "length (resolved_prefix rows names) \<le> length names"
  by (induction names) (auto split: option.splits)

lemma resolved_prefix_all:
  "length (resolved_prefix rows names) = length names \<longleftrightarrow>
     list_all (\<lambda>n. find_name rows n \<noteq> []) names"
proof (induction names)
  case Nil
  show ?case by simp
next
  case (Cons n ns)
  have "length (resolved_prefix rows ns) \<le> length ns"
    by (rule length_resolved_prefix)
  with Cons show ?case
    by (auto simp: resolve_def split: list.splits)
qed

lemma insertCategories_eq:
  "insertCategories productId names s =
     (let ids = resolved_prefix (categoryT (tables s)) names in
      (if length ids = length names then Inr () else Inl (Error ''Invalid category''),
       s\<lparr>tables := (tables s)\<lparr>productCategoryT := productCategoryT (tables s) @
              map (\<lambda>i. \<lparr>pc_productId = productId, pc_categoryId = i\<rparr>) ids\<rparr>,
         calls := calls s @ replicate (length ids) (InsertOne ProductCategoryTable)\<rparr>))"
proof (induction names arbitrary: s)
  case Nil
  show ?case by simp
next
  case (Cons n ns)
  have le: "length (resolved_prefix (categoryT (tables s)) ns) \<le> length ns"
    by (rule length_resolved_prefix)
  show ?case
  proof (cases "find_name (categoryT (tables s)) n")
    case Nil
    then show ?thesis
      by (simp add: categoryRepo_find_def resolve_def)
  next
    case (Cons c cs)
    then show ?thesis
      using le
      by (simp add: Cons.IH categoryRepo_find_def resolve_def productCategoryRepo_insertOne_def
          Let_def replicate_app_Cons_same)
  qed
qed

lemma insertSizes_eq:
  "insertSizes productId names s =
     (let ids = resolved_prefix (sizeT (tables s)) names in
      (if length ids = length names then Inr () else Inl (Error ''Invalid size''),
       s\<lparr>tables := (tables s)\<lparr>productSizeT := productSizeT (tables s) @
              map (\<lambda>i. \<lparr>ps_productId = productId, ps_sizeId = i\<rparr>) ids\<rparr>,
         calls := calls s @ replicate (length ids) (InsertOne ProductSizeTable)\<rparr>))"
proof (induction names arbitrary: s)
  case Nil
  show ?case by simp
next
  case (Cons n ns)
  have le: "length (resolved_prefix (sizeT (tables s)) ns) \<le> length ns"
    by (rule length_resolved_prefix)
  show ?case
  proof (cases "find_name (sizeT (tables s)) n")
    case Nil
    then show ?thesis
      by (simp add: sizeRepo_find_def resolve_def)
  next
    case (Cons c cs)
    then show ?thesis
      using le
      by (simp add: Cons.IH sizeRepo_find_def resolve_def productSizeRepo_insertOne_def
          Let_def replicate_app_Cons_same)
  qed
qed

section \<open>Reconciliation of a changed association list\<close>

lemma changed_iff:
  "changed desired persisted \<longleftrightarrow>
     length desired \<noteq> length persisted \<or> (\<exists>i<length desired. desired ! i \<noteq> persisted ! i)"
proof (cases "length desired = length persisted")
  case False
  then show ?thesis by (simp add: changed_def)
next
  case True
  have "some_indexed (\<lambda>val index. Some val \<noteq> at_index persisted index) desired \<longleftrightarrow>
          (\<exists>i<length desired. desired ! i \<noteq> persisted ! i)"
  proof
    assume "some_indexed (\<lambda>val index. Some val \<noteq> at_index persisted index) desired"
    then obtain i v where "(i, v) \<in> set (enumerate 0 desired)"
      and "Some v \<noteq> at_index persisted i"
      by (auto simp: some_indexed_def list_ex_iff)
    then show "\<exists>i<length desired. desired ! i \<noteq> persisted ! i"
      using True by (auto simp: in_set_enumerate_eq at_index_def)
  next
    assume "\<exists>i<length desired. desired ! i \<noteq> persisted ! i"
    then obtain i where i: "i < length desired" "desired ! i \<noteq> persisted ! i"
      by blast
    then have "(i, desired ! i) \<in> set (enumerate 0 desired)"
      by (simp add: in_set_enumerate_eq)
    moreover have "Some (desired ! i) \<noteq> at_index persisted i"
      using i True by (simp add: at_index_def)
    ultimately show "some_indexed (\<lambda>val index. Some val \<noteq> at_index persisted index) desired"
      by (force simp: some_indexed_def list_ex_iff)
  qed
  with True show ?thesis by (simp add: changed_def)
qed

lemma changed_neq: "changed desired persisted \<longleftrightarrow> desired \<noteq> persisted"
  by (auto simp: changed_iff list_eq_iff_nth_eq)

text \<open>
  What one reconciliation block does when it runs with a desired list that differs from
  the persisted one: one delete, then one insert for each name of the longest prefix of
  the desired names in which every name has a row.
\<close>

lemma reconcile_block_changed:
  assumes "length desired \<noteq> length persisted \<or> (\<exists>i<length desired. desired ! i \<noteq> persisted ! i)"
  shows "(let ids = resolved_prefix (categoryT (tables s)) desired;
              r = reconcileCategories productId desired persisted s in
          map Some ids = takeWhile (\<lambda>x. x \<noteq> None) (map (resolve (categoryT (tables s))) desired)
          \<and> productCategoryT (tables (snd r)) =
              filter (\<lambda>j. pc_productId j \<noteq> productId) (productCategoryT (tables s)) @
              map (\<lambda>i. \<lparr>pc_productId = productId, pc_categoryId = i\<rparr>) ids
          \<and> calls (snd r) =
              calls s @ Delete ProductCategoryTable #
                replicate (length ids) (InsertOne ProductCategoryTable)
          \<and> fst r = (if length ids = length desired then Inr ()
                      else Inl (Error ''Invalid category'')))
       \<and> (let ids = resolved_prefix (sizeT (tables s)) desired;
               r = reconcileSizes productId desired persisted s in
          map Some ids = takeWhile (\<lambda>x. x \<noteq> None) (map (resolve (sizeT (tables s))) desired)
          \<and> productSizeT (tables (snd r)) =
              filter (\<lambda>j. ps_productId j \<noteq> productId) (productSizeT (tables s)) @
              map (\<lambda>i. \<lparr>ps_productId = productId, ps_sizeId = i\<rparr>) ids
          \<and> calls (snd r) =
              calls s @ Delete ProductSizeTable #
                replicate (length ids) (InsertOne ProductSizeTable)
          \<and> fst r = (if length ids = length desired then Inr ()
                      else Inl (Error ''Invalid size'')))"
proof -
  from assms have ch: "changed desired persisted"
    by (simp add: changed_iff)
  have cat: "reconcileCategories productId desired persisted s =
      insertCategories productId desired (productCategoryRepo_delete productId s)"
    using ch by (simp add: reconcileCategories_def)
  have siz: "reconcileSizes productId desired persisted s =
      insertSizes productId desired (productSizeRepo_delete productId s)"
    using ch by (simp add: reconcileSizes_def)
  show ?thesis
    by (simp add: cat siz insertCategories_eq insertSizes_eq productCategoryRepo_delete_def
        productSizeRepo_delete_def resolved_prefix_takeWhile Let_def)
qed

section \<open>The store of a product on update\<close>

lemma reconcileCategories_other:
  "productT (tables (snd (reconcileCategories i d p s))) = productT (tables s)"
  "productSizeT (tables (snd (reconcileCategories i d p s))) = productSizeT (tables s)"
  "brandT (tables (snd (reconcileCategories i d p s))) = brandT (tables s)"
  "categoryT (tables (snd (reconcileCategories i d p s))) = categoryT (tables s)"
  "sizeT (tables (snd (reconcileCategories i d p s))) = sizeT (tables s)"
  "scope (snd (reconcileCategories i d p s)) = scope s"
  by (simp_all add: reconcileCategories_def insertCategories_eq productCategoryRepo_delete_def
      Let_def)

lemma reconcileSizes_other:
  "productT (tables (snd (reconcileSizes i d p s))) = productT (tables s)"
  "productCategoryT (tables (snd (reconcileSizes i d p s))) = productCategoryT (tables s)"
  "brandT (tables (snd (reconcileSizes i d p s))) = brandT (tables s)"
  "categoryT (tables (snd (reconcileSizes i d p s))) = categoryT (tables s)"
  "sizeT (tables (snd (reconcileSizes i d p s))) = sizeT (tables s)"
  "scope (snd (reconcileSizes i d p s)) = scope s"
  by (simp_all add: reconcileSizes_def insertSizes_eq productSizeRepo_delete_def Let_def)

lemma updateProduct_productT:
  "productT (tables (snd (updateProduct entity s))) =
     (case brandRepo_find (tables s) (p_brand entity) of
        [] \<Rightarrow> productT (tables s)
      | b # _ \<Rightarrow>
          map (\<lambda>row. if prod_id row = p_id entity
                      then row\<lparr>prod_brandId := ref_id b, prod_rest := p_rest entity\<rparr>
                      else row) (productT (tables s)))"
proof (cases "brandRepo_find (tables s) (p_brand entity)")
  case Nil
  then show ?thesis by (simp add: updateProduct_def)
next
  case (Cons b bs)
  define s1 where "s1 = productDBRepo_update
      \<lparr>u_id = p_id entity, u_storeId = None, u_brandId = Some (ref_id b),
       u_rest = p_rest entity\<rparr> s"
  have s1: "productT (tables s1) =
      map (\<lambda>row. if prod_id row = p_id entity
                  then row\<lparr>prod_brandId := ref_id b, prod_rest := p_rest entity\<rparr>
                  else row) (productT (tables s))"
    by (simp add: s1_def productDBRepo_update_def write_product_def Let_def)
  have "productT (tables (snd (updateProduct entity s))) = productT (tables s1)"
  proof (cases "productRepo_getById (tables s1) (p_id entity)")
    case None
    then show ?thesis
      using Cons by (simp add: updateProduct_def s1_def)
  next
    case (Some product)
    obtain r2 s2 where rc: "reconcileCategories (p_id entity) (p_categories entity)
        (g_categories product) s1 = (r2, s2)"
      by (cases "reconcileCategories (p_id entity) (p_categories entity)
        (g_categories product) s1")
    have s2: "productT (tables s2) = productT (tables s1)"
      using reconcileCategories_other(1) [of "p_id entity" "p_categories entity"
          "g_categories product" s1]
      by (simp add: rc)
    show ?thesis
    proof (cases r2)
      case (Inl e)
      then show ?thesis
        using Cons Some rc s2 by (simp add: updateProduct_def s1_def [symmetric])
    next
      case (Inr u)
      then show ?thesis
        using Cons Some rc s2
        by (simp add: updateProduct_def s1_def [symmetric] reconcileSizes_other)
    qed
  qed
  with s1 Cons show ?thesis by simp
qed

text \<open>
  C5.  An update never changes the store (or the id) of any product row, whatever
  \<^verbatim>\<open>storeId\<close> the payload carries: the request runs exactly as the same request without a
  \<^verbatim>\<open>storeId\<close> does, so the field is dropped and raises no error of its own.  When the
  brand of the payload has a row, the other scalar attributes of the payload and the
  brand's id are written into the rows that have the payload's id.
\<close>

theorem updateProduct_keeps_store:
  "map prod_storeId (productT (tables (snd (updateProduct entity s)))) =
     map prod_storeId (productT (tables s))
   \<and> map prod_id (productT (tables (snd (updateProduct entity s)))) =
       map prod_id (productT (tables s))
   \<and> updateProduct entity s = updateProduct (entity\<lparr>p_storeId := None\<rparr>) s
   \<and> (\<forall>b bs. brandRepo_find (tables s) (p_brand entity) = b # bs \<longrightarrow>
         productT (tables (snd (updateProduct entity s))) =
           map (\<lambda>row. if prod_id row = p_id entity
                       then row\<lparr>prod_brandId := ref_id b, prod_rest := p_rest entity\<rparr>
                       else row) (productT (tables s)))"
proof -
  have "map prod_storeId (productT (tables (snd (updateProduct entity s)))) =
      map prod_storeId (productT (tables s))"
    by (cases "brandRepo_find (tables s) (p_brand entity)")
      (simp_all add: updateProduct_productT o_def if_distrib cong: if_cong)
  moreover have "map prod_id (productT (tables (snd (updateProduct entity s)))) =
      map prod_id (productT (tables s))"
    by (cases "brandRepo_find (tables s) (p_brand entity)")
      (simp_all add: updateProduct_productT o_def if_distrib cong: if_cong)
  moreover have "updateProduct entity s = updateProduct (entity\<lparr>p_storeId := None\<rparr>) s"
    by (cases "brandRepo_find (tables s) (p_brand entity)")
      (simp_all add: updateProduct_def Let_def split: option.splits prod.splits sum.splits)
  ultimately show ?thesis
    by (simp add: updateProduct_productT)
qed

text \<open>
  The product of the scenario belongs to store 1.  An update that asks for store 9 and a
  new description leaves it in store 1 and writes the description.
\<close>

theorem updateProduct_keeps_store_witness:
  "brandRepo_find (tables stocked) ''Nike'' = [\<lparr>ref_id = 1, ref_name = ''Nike''\<rparr>]
   \<and> productT (tables (snd (updateProduct (sneaker\<lparr>p_storeId := Some 9, p_rest := ''Max''\<rparr>) stocked))) =
       [\<lparr>prod_id = 1, prod_storeId = 1, prod_brandId = 1, prod_rest = ''Max''\<rparr>]
   \<and> fst (updateProduct (sneaker\<lparr>p_storeId := Some 9, p_rest := ''Max''\<rparr>) stocked) = Inr ()"
proof -
  let ?entity = "sneaker\<lparr>p_storeId := Some 9, p_rest := ''Max''\<rparr>"
  have found: "brandRepo_find (tables stocked) ''Nike'' = [\<lparr>ref_id = 1, ref_name = ''Nike''\<rparr>]"
    by (simp add: stocked_eq brandRepo_find_def find_name_def)
  then have found': "brandRepo_find (tables stocked) (p_brand ?entity) =
      \<lparr>ref_id = 1, ref_name = ''Nike''\<rparr> # []"
    by (simp add: sneaker_def)
  have rows: "productT (tables (snd (updateProduct ?entity stocked))) =
      map (\<lambda>row. if prod_id row = p_id ?entity
                  then row\<lparr>prod_brandId := ref_id \<lparr>ref_id = 1, ref_name = ''Nike''\<rparr>,
                           prod_rest := p_rest ?entity\<rparr>
                  else row) (productT (tables stocked))"
    using updateProduct_keeps_store [of ?entity stocked] found' by blast
  have "productT (tables (snd (updateProduct ?entity stocked))) =
      [\<lparr>prod_id = 1, prod_storeId = 1, prod_brandId = 1, prod_rest = ''Max''\<rparr>]"
    unfolding rows by (simp add: stocked_eq sneaker_def)
  moreover have "fst (updateProduct ?entity stocked) = Inr ()"
    by (simp add: updateProduct_def reconcileCategories_def reconcileSizes_def changed_neq
        repo_defs sneaker_def stocked_eq Let_def)
  ultimately show ?thesis
    using found by simp
qed

section \<open>Reconciling twice\<close>

lemma reconcileCategories_eq:
  "reconcileCategories i d p s =
     (if changed d p
      then (if length (resolved_prefix (categoryT (tables s)) d) = length d then Inr ()
            else Inl (Error ''Invalid category''),
            s\<lparr>tables := (tables s)\<lparr>productCategoryT :=
                   filter (\<lambda>j. pc_productId j \<noteq> i) (productCategoryT (tables s)) @
                   map (\<lambda>c. \<lparr>pc_productId = i, pc_categoryId = c\<rparr>)
                     (resolved_prefix (categoryT (tables s)) d)\<rparr>,
              calls := calls s @ Delete ProductCategoryTable #
                replicate (length (resolved_prefix (categoryT (tables s)) d))
                  (InsertOne ProductCategoryTable)\<rparr>)
      else (Inr (), s))"
  by (simp add: reconcileCategories_def insertCategories_eq productCategoryRepo_delete_def
      Let_def)

lemma reconcileSizes_eq:
  "reconcileSizes i d p s =
     (if changed d p
      then (if length (resolved_prefix (sizeT (tables s)) d) = length d then Inr ()
            else Inl (Error ''Invalid size''),
            s\<lparr>tables := (tables s)\<lparr>productSizeT :=
                   filter (\<lambda>j. ps_productId j \<noteq> i) (productSizeT (tables s)) @
                   map (\<lambda>c. \<lparr>ps_productId = i, ps_sizeId = c\<rparr>)
                     (resolved_prefix (sizeT (tables s)) d)\<rparr>,
              calls := calls s @ Delete ProductSizeTable #
                replicate (length (resolved_prefix (sizeT (tables s)) d))
                  (InsertOne ProductSizeTable)\<rparr>)
      else (Inr (), s))"
  by (simp add: reconcileSizes_def insertSizes_eq productSizeRepo_delete_def Let_def)

lemma unresolved_name:
  assumes "length (resolved_prefix rows d) \<noteq> length d"
  shows "\<exists>n\<in>set d. n \<notin> ref_name ` set rows"
proof -
  from assms obtain n where n: "n \<in> set d" "find_name rows n = []"
    by (auto simp: resolved_prefix_all list_all_iff)
  then have "n \<notin> ref_name ` set rows"
    by (auto simp: find_name_def filter_empty_conv)
  with n show ?thesis by blast
qed

lemma category_failed_changed:
  assumes "length (resolved_prefix (categoryT t) d) \<noteq> length d"
  shows "changed d (category_names t i)"
proof -
  from unresolved_name [OF assms] obtain n where n: "n \<in> set d" "n \<notin> ref_name ` set (categoryT t)"
    by blast
  have "set (category_names t i) \<subseteq> ref_name ` set (categoryT t)"
    by (auto simp: category_names_def)
  with n have "d \<noteq> category_names t i" by blast
  then show ?thesis by (simp add: changed_neq)
qed

lemma size_failed_changed:
  assumes "length (resolved_prefix (sizeT t) d) \<noteq> length d"
  shows "changed d (size_names t i)"
proof -
  from unresolved_name [OF assms] obtain n where n: "n \<in> set d" "n \<notin> ref_name ` set (sizeT t)"
    by blast
  have "set (size_names t i) \<subseteq> ref_name ` set (sizeT t)"
    by (auto simp: size_names_def)
  with n have "d \<noteq> size_names t i" by blast
  then show ?thesis by (simp add: changed_neq)
qed

lemma reconcileCategories_again:
  assumes c: "categoryT (tables s') = categoryT (tables s)"
    and p: "productCategoryT (tables s') =
            productCategoryT (tables (snd (reconcileCategories i d (category_names (tables s) i) s)))"
  shows "tables (snd (reconcileCategories i d (category_names (tables s') i) s')) = tables s'
         \<and> fst (reconcileCategories i d (category_names (tables s') i) s') =
             fst (reconcileCategories i d (category_names (tables s) i) s)"
proof (cases "changed d (category_names (tables s) i)")
  case first: True
  let ?ids = "resolved_prefix (categoryT (tables s)) d"
  from first p have pc: "productCategoryT (tables s') =
      filter (\<lambda>j. pc_productId j \<noteq> i) (productCategoryT (tables s)) @
      map (\<lambda>c. \<lparr>pc_productId = i, pc_categoryId = c\<rparr>) ?ids"
    by (simp add: reconcileCategories_eq)
  have del: "filter (\<lambda>j. pc_productId j \<noteq> i) (productCategoryT (tables s')) @
      map (\<lambda>c. \<lparr>pc_productId = i, pc_categoryId = c\<rparr>) ?ids = productCategoryT (tables s')"
    by (simp add: pc filter_map o_def)
  show ?thesis
  proof (cases "changed d (category_names (tables s') i)")
    case True
    with first del show ?thesis
      by (simp add: reconcileCategories_eq c)
  next
    case False
    with category_failed_changed [of "tables s'" d i] have "length ?ids = length d"
      by (auto simp: c)
    with first False show ?thesis
      by (simp add: reconcileCategories_eq)
  qed
next
  case False
  with p have "productCategoryT (tables s') = productCategoryT (tables s)"
    by (simp add: reconcileCategories_eq)
  with c have "category_names (tables s') i = category_names (tables s) i"
    by (simp add: category_names_def)
  with False show ?thesis
    by (simp add: reconcileCategories_eq)
qed

lemma reconcileSizes_again:
  assumes c: "sizeT (tables s') = sizeT (tables s)"
    and p: "productSizeT (tables s') =
            productSizeT (tables (snd (reconcileSizes i d (size_names (tables s) i) s)))"
  shows "tables (snd (reconcileSizes i d (size_names (tables s') i) s')) = tables s'
         \<and> fst (reconcileSizes i d (size_names (tables s') i) s') =
             fst (reconcileSizes i d (size_names (tables s) i) s)"
proof (cases "changed d (size_names (tables s) i)")
  case first: True
  let ?ids = "resolved_prefix (sizeT (tables s)) d"
  from first p have ps: "productSizeT (tables s') =
      filter (\<lambda>j. ps_productId j \<noteq> i) (productSizeT (tables s)) @
      map (\<lambda>c. \<lparr>ps_productId = i, ps_sizeId = c\<rparr>) ?ids"
    by (simp add: reconcileSizes_eq)
  have del: "filter (\<lambda>j. ps_productId j \<noteq> i) (productSizeT (tables s')) @
      map (\<lambda>c. \<lparr>ps_productId = i, ps_sizeId = c\<rparr>) ?ids = productSizeT (tables s')"
    by (simp add: ps filter_map o_def)
  show ?thesis
  proof (cases "changed d (size_names (tables s') i)")
    case True
    with first del show ?thesis
      by (simp add: reconcileSizes_eq c)
  next
    case False
    with size_failed_changed [of "tables s'" d i] have "length ?ids = length d"
      by (auto simp: c)
    with first False show ?thesis
      by (simp add: reconcileSizes_eq)
  qed
next
  case False
  with p have "productSizeT (tables s') = productSizeT (tables s)"
    by (simp add: reconcileSizes_eq)
  with c have "size_names (tables s') i = size_names (tables s) i"
    by (simp add: size_names_def)
  with False show ?thesis
    by (simp add: reconcileSizes_eq)
qed

lemma productDBRepo_update_frame:
  "brandT (tables (productDBRepo_update u s)) = brandT (tables s)"
  "categoryT (tables (productDBRepo_update u s)) = categoryT (tables s)"
  "sizeT (tables (productDBRepo_update u s)) = sizeT (tables s)"
  "productCategoryT (tables (productDBRepo_update u s)) = productCategoryT (tables s)"
  "productSizeT (tables (productDBRepo_update u s)) = productSizeT (tables s)"
  "calls (productDBRepo_update u s) = calls s @ [Update ProductTable]"
  by (simp_all add: productDBRepo_update_def Let_def)

lemma productDBRepo_update_found:
  "filter (\<lambda>row. prod_id row = i) (productT (tables (productDBRepo_update u s))) = [] \<longleftrightarrow>
     filter (\<lambda>row. prod_id row = i) (productT (tables s)) = []"
proof -
  let ?f = "\<lambda>row. if prod_id row = u_id u then write_product u row else row"
  have "prod_id (?f row) = prod_id row" for row :: "'a ProductDB"
    by (simp add: write_product_def)
  then have "map prod_id (map ?f rows) = map prod_id rows" for rows :: "'a ProductDB list"
    by (induction rows) simp_all
  then have ids: "map prod_id (productT (tables (productDBRepo_update u s))) =
      map prod_id (productT (tables s))"
    by (simp add: productDBRepo_update_def Let_def)
  have "filter (\<lambda>row. prod_id row = i) rows = [] \<longleftrightarrow> i \<notin> set (map prod_id rows)"
    for rows :: "'a ProductDB list"
    by (auto simp: filter_empty_conv)
  from this [of "productT (tables (productDBRepo_update u s))"] this [of "productT (tables s)"]
  show ?thesis
    by (simp only: ids)
qed

lemma productDBRepo_update_again:
  assumes "productT (tables s') = productT (tables (productDBRepo_update u s))"
  shows "tables (productDBRepo_update u s') = tables s'"
proof -
  let ?f = "\<lambda>row. if prod_id row = u_id u then write_product u row else row"
  have "?f (?f row) = ?f row" for row :: "'a ProductDB"
    by (simp add: write_product_def split: option.splits)
  then have "map ?f (map ?f rows) = map ?f rows" for rows :: "'a ProductDB list"
    by (induction rows) simp_all
  with assms have "map ?f (productT (tables s')) = productT (tables s')"
    by (simp add: productDBRepo_update_def Let_def)
  then show ?thesis
    by (simp add: productDBRepo_update_def Let_def)
qed

text \<open>The two ways an update goes on once the brand is found.\<close>

lemma updateProduct_missing:
  assumes "brandRepo_find (tables s) (p_brand e) = b # bs"
    and "filter (\<lambda>row. prod_id row = p_id e) (productT (tables s)) = []"
  shows "updateProduct e s =
     (Inl (Error ''Product not found''),
      productDBRepo_update \<lparr>u_id = p_id e, u_storeId = None, u_brandId = Some (ref_id b),
        u_rest = p_rest e\<rparr> s)"
  using assms productDBRepo_update_found [of "p_id e"
      "\<lparr>u_id = p_id e, u_storeId = None, u_brandId = Some (ref_id b), u_rest = p_rest e\<rparr>" s]
  by (simp add: updateProduct_def productRepo_getById_def Let_def)

lemma updateProduct_found:
  assumes "brandRepo_find (tables s) (p_brand e) = b # bs"
    and "filter (\<lambda>row. prod_id row = p_id e) (productT (tables s)) \<noteq> []"
    and "s1 = productDBRepo_update \<lparr>u_id = p_id e, u_storeId = None,
           u_brandId = Some (ref_id b), u_rest = p_rest e\<rparr> s"
  shows "updateProduct e s =
     (case reconcileCategories (p_id e) (p_categories e) (category_names (tables s1) (p_id e)) s1 of
        (Inl er, s2) \<Rightarrow> (Inl er, s2)
      | (Inr _, s2) \<Rightarrow>
          reconcileSizes (p_id e) (p_sizes e) (size_names (tables s1) (p_id e)) s2)"
proof -
  from assms(2) productDBRepo_update_found [of "p_id e"
      "\<lparr>u_id = p_id e, u_storeId = None, u_brandId = Some (ref_id b), u_rest = p_rest e\<rparr>" s]
  obtain row rows where "filter (\<lambda>row. prod_id row = p_id e) (productT (tables s1)) = row # rows"
    by (cases "filter (\<lambda>row. prod_id row = p_id e) (productT (tables s1))")
      (simp_all add: assms(3))
  then have "productRepo_getById (tables s1) (p_id e) =
      Some \<lparr>g_row = row, g_categories = category_names (tables s1) (p_id e),
            g_sizes = size_names (tables s1) (p_id e)\<rparr>"
    by (simp add: productRepo_getById_def)
  with assms(1) show ?thesis
    by (simp add: updateProduct_def Let_def assms(3) [symmetric] split: prod.splits sum.splits)
qed

lemma updateProduct_twice:
  "tables (snd (updateProduct e (snd (updateProduct e s)))) = tables (snd (updateProduct e s))"
proof (cases "brandRepo_find (tables s) (p_brand e)")
  case Nil
  then show ?thesis by (simp add: updateProduct_def)
next
  case (Cons b bs)
  let ?u = "\<lparr>u_id = p_id e, u_storeId = None, u_brandId = Some (ref_id b), u_rest = p_rest e\<rparr>"
  let ?i = "p_id e"
  define s1 where "s1 = productDBRepo_update ?u s"
  have fr1: "brandT (tables s1) = brandT (tables s)"
    by (simp add: s1_def productDBRepo_update_frame)
  show ?thesis
  proof (cases "filter (\<lambda>row. prod_id row = ?i) (productT (tables s)) = []")
    case True
    have first: "updateProduct e s = (Inl (Error ''Product not found''), s1)"
      using updateProduct_missing [OF Cons True] by (simp add: s1_def)
    have b1: "brandRepo_find (tables s1) (p_brand e) = b # bs"
      using Cons fr1 by (simp add: brandRepo_find_def)
    have m1: "filter (\<lambda>row. prod_id row = ?i) (productT (tables s1)) = []"
      using True productDBRepo_update_found [of ?i ?u s] by (simp add: s1_def)
    have "updateProduct e s1 = (Inl (Error ''Product not found''), productDBRepo_update ?u s1)"
      by (rule updateProduct_missing [OF b1 m1])
    moreover have "tables (productDBRepo_update ?u s1) = tables s1"
      by (rule productDBRepo_update_again) (simp add: s1_def)
    ultimately show ?thesis by (simp add: first)
  next
    case False
    let ?dc = "p_categories e" and ?ds = "p_sizes e"
    have first: "updateProduct e s =
        (case reconcileCategories ?i ?dc (category_names (tables s1) ?i) s1 of
           (Inl er, s2) \<Rightarrow> (Inl er, s2)
         | (Inr _, s2) \<Rightarrow> reconcileSizes ?i ?ds (size_names (tables s1) ?i) s2)"
      by (rule updateProduct_found [OF Cons False s1_def])
    obtain r2 s2 where rc: "reconcileCategories ?i ?dc (category_names (tables s1) ?i) s1 = (r2, s2)"
      by (cases "reconcileCategories ?i ?dc (category_names (tables s1) ?i) s1")
    have fr2: "productT (tables s2) = productT (tables s1)"
      "productSizeT (tables s2) = productSizeT (tables s1)"
      "brandT (tables s2) = brandT (tables s1)"
      "categoryT (tables s2) = categoryT (tables s1)"
      "sizeT (tables s2) = sizeT (tables s1)"
      using reconcileCategories_other [of ?i ?dc "category_names (tables s1) ?i" s1]
      by (simp_all add: rc)
    define sf where "sf = snd (updateProduct e s)"
    have sf: "brandT (tables sf) = brandT (tables s1) \<and> categoryT (tables sf) = categoryT (tables s1)
        \<and> productT (tables sf) = productT (tables s1)
        \<and> productCategoryT (tables sf) = productCategoryT (tables s2)"
    proof (cases r2)
      case (Inl er)
      then have "sf = s2" by (simp add: sf_def first rc)
      with fr2 show ?thesis by simp
    next
      case (Inr x)
      then have "sf = snd (reconcileSizes ?i ?ds (size_names (tables s1) ?i) s2)"
        by (simp add: sf_def first rc)
      with fr2 show ?thesis by (simp add: reconcileSizes_other)
    qed
    define s1' where "s1' = productDBRepo_update ?u sf"
    have "productT (tables sf) = productT (tables (productDBRepo_update ?u s))"
      using sf by (simp add: s1_def)
    then have t1': "tables s1' = tables sf"
      unfolding s1'_def by (rule productDBRepo_update_again)
    have b': "brandRepo_find (tables sf) (p_brand e) = b # bs"
      using Cons sf fr1 by (simp add: brandRepo_find_def)
    have "filter (\<lambda>row. prod_id row = ?i) (productT (tables s1)) \<noteq> []"
      using False productDBRepo_update_found [of ?i ?u s] by (simp add: s1_def)
    then have f': "filter (\<lambda>row. prod_id row = ?i) (productT (tables sf)) \<noteq> []"
      using sf by simp
    have second: "updateProduct e sf =
        (case reconcileCategories ?i ?dc (category_names (tables s1') ?i) s1' of
           (Inl er, t2) \<Rightarrow> (Inl er, t2)
         | (Inr _, t2) \<Rightarrow> reconcileSizes ?i ?ds (size_names (tables s1') ?i) t2)"
      by (rule updateProduct_found [OF b' f' s1'_def])
    obtain r2' t2 where rc': "reconcileCategories ?i ?dc (category_names (tables s1') ?i) s1' = (r2', t2)"
      by (cases "reconcileCategories ?i ?dc (category_names (tables s1') ?i) s1'")
    have "categoryT (tables s1') = categoryT (tables s1)"
      using sf t1' by simp
    moreover have "productCategoryT (tables s1') =
        productCategoryT (tables (snd (reconcileCategories ?i ?dc (category_names (tables s1) ?i) s1)))"
      using sf t1' by (simp add: rc)
    ultimately have "tables (snd (reconcileCategories ?i ?dc (category_names (tables s1') ?i) s1')) = tables s1'
        \<and> fst (reconcileCategories ?i ?dc (category_names (tables s1') ?i) s1') =
            fst (reconcileCategories ?i ?dc (category_names (tables s1) ?i) s1)"
      by (rule reconcileCategories_again)
    then have "tables t2 = tables s1'" and r2': "r2' = r2"
      by (simp_all add: rc rc')
    with t1' have t2: "tables t2 = tables sf"
      by simp
    show ?thesis
    proof (cases r2)
      case (Inl er)
      with second rc' r2' t2 show ?thesis
        by (simp add: sf_def [symmetric])
    next
      case (Inr x)
      then have sf_eq: "sf = snd (reconcileSizes ?i ?ds (size_names (tables s1) ?i) s2)"
        by (simp add: sf_def first rc)
      have n1: "size_names (tables s1) ?i = size_names (tables s2) ?i"
        using fr2 by (simp add: size_names_def)
      have n2: "size_names (tables s1') ?i = size_names (tables t2) ?i"
        using t1' t2 by simp
      have "sizeT (tables sf) = sizeT (tables s2)"
        by (simp add: sf_eq reconcileSizes_other)
      then have "sizeT (tables t2) = sizeT (tables s2)"
        using t2 by simp
      moreover have "productSizeT (tables t2) =
          productSizeT (tables (snd (reconcileSizes ?i ?ds (size_names (tables s2) ?i) s2)))"
        using t2 by (simp add: sf_eq n1)
      ultimately have "tables (snd (reconcileSizes ?i ?ds (size_names (tables t2) ?i) t2)) = tables t2
          \<and> fst (reconcileSizes ?i ?ds (size_names (tables t2) ?i) t2) =
              fst (reconcileSizes ?i ?ds (size_names (tables s2) ?i) s2)"
        by (rule reconcileSizes_again)
      with Inr second rc' r2' t2 n2 show ?thesis
        by (simp add: sf_def [symmetric])
    qed
  qed
qed

lemma updateProduct_no_category_writes:
  assumes "category_names (tables s) (p_id e) = p_categories e"
  shows "filter (\<lambda>c. c = Delete ProductCategoryTable \<or> c = InsertOne ProductCategoryTable)
           (calls (snd (updateProduct e s))) =
         filter (\<lambda>c. c = Delete ProductCategoryTable \<or> c = InsertOne ProductCategoryTable)
           (calls s)"
proof (cases "brandRepo_find (tables s) (p_brand e)")
  case Nil
  then show ?thesis by (simp add: updateProduct_def)
next
  case (Cons b bs)
  let ?u = "\<lparr>u_id = p_id e, u_storeId = None, u_brandId = Some (ref_id b), u_rest = p_rest e\<rparr>"
  define s1 where "s1 = productDBRepo_update ?u s"
  show ?thesis
  proof (cases "filter (\<lambda>row. prod_id row = p_id e) (productT (tables s)) = []")
    case True
    from updateProduct_missing [OF Cons True] show ?thesis
      by (simp add: productDBRepo_update_frame)
  next
    case False
    have "category_names (tables s1) (p_id e) = p_categories e"
      using assms by (simp add: s1_def category_names_def productDBRepo_update_frame)
    then have "reconcileCategories (p_id e) (p_categories e)
        (category_names (tables s1) (p_id e)) s1 = (Inr (), s1)"
      by (simp add: reconcileCategories_eq changed_neq)
    with updateProduct_found [OF Cons False s1_def]
    have "updateProduct e s =
        reconcileSizes (p_id e) (p_sizes e) (size_names (tables s1) (p_id e)) s1"
      by simp
    then show ?thesis
      by (simp add: reconcileSizes_eq s1_def productDBRepo_update_frame)
  qed
qed

lemma updateProduct_no_size_writes:
  assumes "size_names (tables s) (p_id e) = p_sizes e"
  shows "filter (\<lambda>c. c = Delete ProductSizeTable \<or> c = InsertOne ProductSizeTable)
           (calls (snd (updateProduct e s))) =
         filter (\<lambda>c. c = Delete ProductSizeTable \<or> c = InsertOne ProductSizeTable)
           (calls s)"
proof (cases "brandRepo_find (tables s) (p_brand e)")
  case Nil
  then show ?thesis by (simp add: updateProduct_def)
next
  case (Cons b bs)
  let ?u = "\<lparr>u_id = p_id e, u_storeId = None, u_brandId = Some (ref_id b), u_rest = p_rest e\<rparr>"
  define s1 where "s1 = productDBRepo_update ?u s"
  show ?thesis
  proof (cases "filter (\<lambda>row. prod_id row = p_id e) (productT (tables s)) = []")
    case True
    from updateProduct_missing [OF Cons True] show ?thesis
      by (simp add: productDBRepo_update_frame)
  next
    case False
    obtain r2 s2 where rc: "reconcileCategories (p_id e) (p_categories e)
        (category_names (tables s1) (p_id e)) s1 = (r2, s2)"
      by (cases "reconcileCategories (p_id e) (p_categories e)
        (category_names (tables s1) (p_id e)) s1")
    have c2: "filter (\<lambda>c. c = Delete ProductSizeTable \<or> c = InsertOne ProductSizeTable) (calls s2) =
        filter (\<lambda>c. c = Delete ProductSizeTable \<or> c = InsertOne ProductSizeTable) (calls s)"
    proof -
      have "s2 = snd (reconcileCategories (p_id e) (p_categories e)
          (category_names (tables s1) (p_id e)) s1)"
        by (simp add: rc)
      then show ?thesis
        by (simp add: reconcileCategories_eq s1_def productDBRepo_update_frame)
    qed
    have "size_names (tables s1) (p_id e) = p_sizes e"
      using assms by (simp add: s1_def size_names_def productDBRepo_update_frame)
    then have rs: "reconcileSizes (p_id e) (p_sizes e) (size_names (tables s1) (p_id e)) s2 =
        (Inr (), s2)"
      by (simp add: reconcileSizes_eq changed_neq)
    show ?thesis
      using updateProduct_found [OF Cons False s1_def] rc rs c2
      by (cases r2) simp_all
  qed
qed

text \<open>
  C2.  Running the same product update a second time, right after the first, leaves every
  table exactly as the first run left it, whether the first run returned or raised.  In the
  second run, when the category names persisted for the product equal the desired ones, no
  delete and no insert is issued on the ProductCategory table, and likewise for the sizes
  and the ProductSize table.
\<close>

theorem updateProduct_idempotent:
  "tables (snd (updateProduct e (snd (updateProduct e s)))) = tables (snd (updateProduct e s))
   \<and> (category_names (tables (snd (updateProduct e s))) (p_id e) = p_categories e \<longrightarrow>
        filter (\<lambda>c. c = Delete ProductCategoryTable \<or> c = InsertOne ProductCategoryTable)
          (calls (snd (updateProduct e (snd (updateProduct e s))))) =
        filter (\<lambda>c. c = Delete ProductCategoryTable \<or> c = InsertOne ProductCategoryTable)
          (calls (snd (updateProduct e s))))
   \<and> (size_names (tables (snd (updateProduct e s))) (p_id e) = p_sizes e \<longrightarrow>
        filter (\<lambda>c. c = Delete ProductSizeTable \<or> c = InsertOne ProductSizeTable)
          (calls (snd (updateProduct e (snd (updateProduct e s))))) =
        filter (\<lambda>c. c = Delete ProductSizeTable \<or> c = InsertOne ProductSizeTable)
          (calls (snd (updateProduct e s))))"
  using updateProduct_twice [of e s]
    updateProduct_no_category_writes [of "snd (updateProduct e s)" e]
    updateProduct_no_size_writes [of "snd (updateProduct e s)" e]
  by blast

text \<open>
  The product of the scenario has the categories Shoes and Sale.  An update asks for Sale
  and Shoes, in this order.  The first run rewrites the two join rows; after it the
  persisted names equal the desired ones, and the second run leaves the tables alone and
  issues no write on either join table.
\<close>

theorem updateProduct_idempotent_witness:
  "category_names (tables (snd (updateProduct (sneaker\<lparr>p_categories := [''Sale'', ''Shoes'']\<rparr>) stocked))) 1 =
     [''Sale'', ''Shoes'']
   \<and> size_names (tables (snd (updateProduct (sneaker\<lparr>p_categories := [''Sale'', ''Shoes'']\<rparr>) stocked))) 1 =
     [''M'']
   \<and> productCategoryT (tables (snd (updateProduct (sneaker\<lparr>p_categories := [''Sale'', ''Shoes'']\<rparr>)
        (snd (updateProduct (sneaker\<lparr>p_categories := [''Sale'', ''Shoes'']\<rparr>) stocked))))) =
     [\<lparr>pc_productId = 1, pc_categoryId = 2\<rparr>, \<lparr>pc_productId = 1, pc_categoryId = 1\<rparr>]
   \<and> filter (\<lambda>c. c = Delete ProductCategoryTable \<or> c = InsertOne ProductCategoryTable)
        (calls (snd (updateProduct (sneaker\<lparr>p_categories := [''Sale'', ''Shoes'']\<rparr>)
          (snd (updateProduct (sneaker\<lparr>p_categories := [''Sale'', ''Shoes'']\<rparr>) stocked))))) =
     [InsertOne ProductCategoryTable, InsertOne ProductCategoryTable,
      Delete ProductCategoryTable, InsertOne ProductCategoryTable, InsertOne ProductCategoryTable]
   \<and> filter (\<lambda>c. c = Delete ProductSizeTable \<or> c = InsertOne ProductSizeTable)
        (calls (snd (updateProduct (sneaker\<lparr>p_categories := [''Sale'', ''Shoes'']\<rparr>)
          (snd (updateProduct (sneaker\<lparr>p_categories := [''Sale'', ''Shoes'']\<rparr>) stocked))))) =
     [InsertOne ProductSizeTable]"
proof -
  let ?e = "sneaker\<lparr>p_categories := [''Sale'', ''Shoes'']\<rparr>"
  let ?s1 = "snd (updateProduct ?e stocked)"
  let ?s2 = "snd (updateProduct ?e ?s1)"
  have first: "?s1 =
     \<lparr>tables =
        \<lparr>brandT = [\<lparr>ref_id = 1, ref_name = ''Nike''\<rparr>],
         categoryT = [\<lparr>ref_id = 1, ref_name = ''Shoes''\<rparr>, \<lparr>ref_id = 2, ref_name = ''Sale''\<rparr>],
         sizeT = [\<lparr>ref_id = 1, ref_name = ''M''\<rparr>],
         productT = [\<lparr>prod_id = 1, prod_storeId = 1, prod_brandId = 1, prod_rest = ''Air''\<rparr>],
         productSeq = 2,
         productCategoryT = [\<lparr>pc_productId = 1, pc_categoryId = 2\<rparr>,
                             \<lparr>pc_productId = 1, pc_categoryId = 1\<rparr>],
         productSizeT = [\<lparr>ps_productId = 1, ps_sizeId = 1\<rparr>],
         storeT = [\<lparr>st_id = 1, st_name = ''Orange'', st_managerId = 7\<rparr>],
         storeSeq = 2,
         storeColorT = [],
         storeColorSeq = 1\<rparr>,
      scope = None,
      calls = [BeginTransaction, InsertOne ProductTable, InsertOne ProductCategoryTable,
               InsertOne ProductCategoryTable, InsertOne ProductSizeTable, CommitTransaction,
               Update ProductTable, Delete ProductCategoryTable,
               InsertOne ProductCategoryTable, InsertOne ProductCategoryTable]\<rparr>"
    by (simp add: updateProduct_def reconcileCategories_def reconcileSizes_def changed_neq
        repo_defs sneaker_def stocked_eq Let_def)
  have c: "category_names (tables ?s1) (p_id ?e) = p_categories ?e"
    unfolding first by (simp add: category_names_def sneaker_def)
  have z: "size_names (tables ?s1) (p_id ?e) = p_sizes ?e"
    unfolding first by (simp add: size_names_def sneaker_def)
  note twice = updateProduct_idempotent [of ?e stocked]
  from twice have "tables ?s2 = tables ?s1"
    by blast
  then have rows: "productCategoryT (tables ?s2) = productCategoryT (tables ?s1)"
    by (simp only:)
  from twice c
  have cw: "filter (\<lambda>c. c = Delete ProductCategoryTable \<or> c = InsertOne ProductCategoryTable) (calls ?s2) =
      filter (\<lambda>c. c = Delete ProductCategoryTable \<or> c = InsertOne ProductCategoryTable) (calls ?s1)"
    by blast
  from twice z
  have zw: "filter (\<lambda>c. c = Delete ProductSizeTable \<or> c = InsertOne ProductSizeTable) (calls ?s2) =
      filter (\<lambda>c. c = Delete ProductSizeTable \<or> c = InsertOne ProductSizeTable) (calls ?s1)"
    by blast
  have "category_names (tables ?s1) 1 = [''Sale'', ''Shoes'']"
    using c by (simp add: sneaker_def)
  moreover have "size_names (tables ?s1) 1 = [''M'']"
    using z by (simp add: sneaker_def)
  moreover have "productCategoryT (tables ?s2) =
      [\<lparr>pc_productId = 1, pc_categoryId = 2\<rparr>, \<lparr>pc_productId = 1, pc_categoryId = 1\<rparr>]"
  proof -
    have "productCategoryT (tables ?s1) =
        [\<lparr>pc_productId = 1, pc_categoryId = 2\<rparr>, \<lparr>pc_productId = 1, pc_categoryId = 1\<rparr>]"
      unfolding first by simp
    with rows show ?thesis by (simp only:)
  qed
  moreover have "filter (\<lambda>c. c = Delete ProductCategoryTable \<or> c = InsertOne ProductCategoryTable)
      (calls ?s2) =
      [InsertOne ProductCategoryTable, InsertOne ProductCategoryTable,
       Delete ProductCategoryTable, InsertOne ProductCategoryTable, InsertOne ProductCategoryTable]"
  proof -
    have "filter (\<lambda>c. c = Delete ProductCategoryTable \<or> c = InsertOne ProductCategoryTable)
        (calls ?s1) =
        [InsertOne ProductCategoryTable, InsertOne ProductCategoryTable,
         Delete ProductCategoryTable, InsertOne ProductCategoryTable, InsertOne ProductCategoryTable]"
      unfolding first by simp
    with cw show ?thesis by (simp only:)
  qed
  moreover have "filter (\<lambda>c. c = Delete ProductSizeTable \<or> c = InsertOne ProductSizeTable)
      (calls ?s2) = [InsertOne ProductSizeTable]"
  proof -
    have "filter (\<lambda>c. c = Delete ProductSizeTable \<or> c = InsertOne ProductSizeTable)
        (calls ?s1) = [InsertOne ProductSizeTable]"
      unfolding first by simp
    with zw show ?thesis by (simp only:)
  qed
  ultimately show ?thesis
    by (intro conjI)
qed

section \<open>A product update with a changed association list\<close>

lemma productRepo_getById_Some:
  assumes "productRepo_getById t i = Some product"
  shows "filter (\<lambda>row. prod_id row = i) (productT t) \<noteq> []
         \<and> g_categories product = category_names t i
         \<and> g_sizes product = size_names t i"
  using assms by (auto simp: productRepo_getById_def split: list.splits)

lemma filter_write_replicate:
  "filter (\<lambda>c. c = Delete t \<or> c = InsertOne t) (replicate n (InsertOne t')) =
     (if t' = t then replicate n (InsertOne t) else [])"
  by (induction n) auto

text \<open>
  C1.  Take a product update whose brand has a row and whose product exists, so that the
  update reaches the reconciliation, and let the persisted names be those the read-back
  yields.  When the desired category names differ from the persisted ones in length or at
  some position, the update issues one delete on the ProductCategory table and then one
  insert for each name of the longest prefix of the desired names in which every name has
  a Category row.  Afterwards the join table holds the rows of the other products
  followed, in order, by one row for each of those names, with the product id and the id
  of the first row of that exact name.  At the first desired name that has no row the
  update raises ``Invalid category'' and leaves the sizes alone.  When the category block
  returns normally and the desired size names differ from the persisted ones, the same
  holds of the sizes and the ProductSize table, with ``Invalid size''.
\<close>

theorem updateProduct_reconciles_changed:
  assumes "brandRepo_find (tables s) (p_brand e) = b # bs"
    and "productRepo_getById (tables s) (p_id e) = Some product"
  shows "(length (p_categories e) \<noteq> length (g_categories product) \<or>
          (\<exists>i<length (p_categories e). p_categories e ! i \<noteq> g_categories product ! i) \<longrightarrow>
          (let ids = resolved_prefix (categoryT (tables s)) (p_categories e);
               r = updateProduct e s in
           map Some ids =
             takeWhile (\<lambda>x. x \<noteq> None) (map (resolve (categoryT (tables s))) (p_categories e))
           \<and> productCategoryT (tables (snd r)) =
               filter (\<lambda>j. pc_productId j \<noteq> p_id e) (productCategoryT (tables s)) @
               map (\<lambda>i. \<lparr>pc_productId = p_id e, pc_categoryId = i\<rparr>) ids
           \<and> filter (\<lambda>c. c = Delete ProductCategoryTable \<or> c = InsertOne ProductCategoryTable)
                 (calls (snd r)) =
               filter (\<lambda>c. c = Delete ProductCategoryTable \<or> c = InsertOne ProductCategoryTable)
                 (calls s) @
               Delete ProductCategoryTable # replicate (length ids) (InsertOne ProductCategoryTable)
           \<and> (length ids \<noteq> length (p_categories e) \<longrightarrow>
                 fst r = Inl (Error ''Invalid category'')
                 \<and> productSizeT (tables (snd r)) = productSizeT (tables s))))
       \<and> ((p_categories e = g_categories product \<or>
             length (resolved_prefix (categoryT (tables s)) (p_categories e)) =
               length (p_categories e)) \<and>
            (length (p_sizes e) \<noteq> length (g_sizes product) \<or>
             (\<exists>i<length (p_sizes e). p_sizes e ! i \<noteq> g_sizes product ! i)) \<longrightarrow>
          (let ids = resolved_prefix (sizeT (tables s)) (p_sizes e);
               r = updateProduct e s in
           map Some ids =
             takeWhile (\<lambda>x. x \<noteq> None) (map (resolve (sizeT (tables s))) (p_sizes e))
           \<and> productSizeT (tables (snd r)) =
               filter (\<lambda>j. ps_productId j \<noteq> p_id e) (productSizeT (tables s)) @
               map (\<lambda>i. \<lparr>ps_productId = p_id e, ps_sizeId = i\<rparr>) ids
           \<and> filter (\<lambda>c. c = Delete ProductSizeTable \<or> c = InsertOne ProductSizeTable)
                 (calls (snd r)) =
               filter (\<lambda>c. c = Delete ProductSizeTable \<or> c = InsertOne ProductSizeTable)
                 (calls s) @
               Delete ProductSizeTable # replicate (length ids) (InsertOne ProductSizeTable)
           \<and> fst r = (if length ids = length (p_sizes e) then Inr ()
                       else Inl (Error ''Invalid size''))))"
proof -
  let ?i = "p_id e"
  let ?dc = "p_categories e" and ?ds = "p_sizes e"
  let ?cids = "resolved_prefix (categoryT (tables s)) ?dc"
  let ?zids = "resolved_prefix (sizeT (tables s)) ?ds"
  define s1 where "s1 = productDBRepo_update
      \<lparr>u_id = p_id e, u_storeId = None, u_brandId = Some (ref_id b), u_rest = p_rest e\<rparr> s"
  from productRepo_getById_Some [OF assms(2)]
  have exists: "filter (\<lambda>row. prod_id row = ?i) (productT (tables s)) \<noteq> []"
    and pc: "g_categories product = category_names (tables s) ?i"
    and pz: "g_sizes product = size_names (tables s) ?i"
    by simp_all
  have fr1: "categoryT (tables s1) = categoryT (tables s)" "sizeT (tables s1) = sizeT (tables s)"
    "productCategoryT (tables s1) = productCategoryT (tables s)"
    "productSizeT (tables s1) = productSizeT (tables s)"
    "calls s1 = calls s @ [Update ProductTable]"
    by (simp_all add: s1_def productDBRepo_update_frame)
  have n1: "category_names (tables s1) ?i = g_categories product"
    "size_names (tables s1) ?i = g_sizes product"
    by (simp_all add: pc pz category_names_def size_names_def fr1)
  have run: "updateProduct e s =
      (case reconcileCategories ?i ?dc (g_categories product) s1 of
         (Inl er, s2) \<Rightarrow> (Inl er, s2)
       | (Inr _, s2) \<Rightarrow> reconcileSizes ?i ?ds (g_sizes product) s2)"
    using updateProduct_found [OF assms(1) exists s1_def] unfolding n1 .
  have cat: "map Some ?cids = takeWhile (\<lambda>x. x \<noteq> None) (map (resolve (categoryT (tables s))) ?dc)
      \<and> productCategoryT (tables (snd (updateProduct e s))) =
          filter (\<lambda>j. pc_productId j \<noteq> ?i) (productCategoryT (tables s)) @
          map (\<lambda>i. \<lparr>pc_productId = p_id e, pc_categoryId = i\<rparr>) ?cids
      \<and> filter (\<lambda>c. c = Delete ProductCategoryTable \<or> c = InsertOne ProductCategoryTable)
            (calls (snd (updateProduct e s))) =
          filter (\<lambda>c. c = Delete ProductCategoryTable \<or> c = InsertOne ProductCategoryTable)
            (calls s) @
          Delete ProductCategoryTable # replicate (length ?cids) (InsertOne ProductCategoryTable)
      \<and> (length ?cids \<noteq> length ?dc \<longrightarrow>
            fst (updateProduct e s) = Inl (Error ''Invalid category'')
            \<and> productSizeT (tables (snd (updateProduct e s))) = productSizeT (tables s))"
    if "changed ?dc (g_categories product)"
    using that
    by (simp add: run reconcileCategories_eq reconcileSizes_eq fr1 resolved_prefix_takeWhile
        filter_write_replicate)
  have siz: "map Some ?zids = takeWhile (\<lambda>x. x \<noteq> None) (map (resolve (sizeT (tables s))) ?ds)
      \<and> productSizeT (tables (snd (updateProduct e s))) =
          filter (\<lambda>j. ps_productId j \<noteq> ?i) (productSizeT (tables s)) @
          map (\<lambda>i. \<lparr>ps_productId = p_id e, ps_sizeId = i\<rparr>) ?zids
      \<and> filter (\<lambda>c. c = Delete ProductSizeTable \<or> c = InsertOne ProductSizeTable)
            (calls (snd (updateProduct e s))) =
          filter (\<lambda>c. c = Delete ProductSizeTable \<or> c = InsertOne ProductSizeTable)
            (calls s) @
          Delete ProductSizeTable # replicate (length ?zids) (InsertOne ProductSizeTable)
      \<and> fst (updateProduct e s) =
          (if length ?zids = length ?ds then Inr () else Inl (Error ''Invalid size''))"
    if "?dc = g_categories product \<or> length ?cids = length ?dc"
      and "changed ?ds (g_sizes product)"
    using that
    by (auto simp: run reconcileCategories_eq reconcileSizes_eq fr1 resolved_prefix_takeWhile
        filter_write_replicate changed_neq)
  show ?thesis
    unfolding Let_def
    apply (rule conjI)
     apply (rule impI)
     apply (rule cat)
     apply (simp add: changed_iff)
    apply (rule impI)
    apply (rule siz)
     apply blast
    apply (simp add: changed_iff)
    done
qed

text \<open>
  The spec's scenario: the product has the categories Shoes and Sale, and the update asks
  for Shoes alone.  Both old join rows go, and one row is inserted.  A second update keeps
  the categories and asks for the sizes M and XL, of which XL has no row: the old size row
  goes, the row of M is inserted, and the update raises.
\<close>

theorem updateProduct_reconciles_changed_witness:
  "brandRepo_find (tables stocked) ''Nike'' = [\<lparr>ref_id = 1, ref_name = ''Nike''\<rparr>]
   \<and> productRepo_getById (tables stocked) 1 =
       Some \<lparr>g_row = \<lparr>prod_id = 1, prod_storeId = 1, prod_brandId = 1, prod_rest = ''Air''\<rparr>,
             g_categories = [''Shoes'', ''Sale''], g_sizes = [''M'']\<rparr>
   \<and> productCategoryT (tables (snd (updateProduct (sneaker\<lparr>p_categories := [''Shoes'']\<rparr>) stocked))) =
       [\<lparr>pc_productId = 1, pc_categoryId = 1\<rparr>]
   \<and> filter (\<lambda>c. c = Delete ProductCategoryTable \<or> c = InsertOne ProductCategoryTable)
         (calls (snd (updateProduct (sneaker\<lparr>p_categories := [''Shoes'']\<rparr>) stocked))) =
       [InsertOne ProductCategoryTable, InsertOne ProductCategoryTable,
        Delete ProductCategoryTable, InsertOne ProductCategoryTable]
   \<and> productSizeT (tables (snd (updateProduct (sneaker\<lparr>p_sizes := [''M'', ''XL'']\<rparr>) stocked))) =
       [\<lparr>ps_productId = 1, ps_sizeId = 1\<rparr>]
   \<and> filter (\<lambda>c. c = Delete ProductSizeTable \<or> c = InsertOne ProductSizeTable)
         (calls (snd (updateProduct (sneaker\<lparr>p_sizes := [''M'', ''XL'']\<rparr>) stocked))) =
       [InsertOne ProductSizeTable, Delete ProductSizeTable, InsertOne ProductSizeTable]
   \<and> fst (updateProduct (sneaker\<lparr>p_sizes := [''M'', ''XL'']\<rparr>) stocked) =
       Inl (Error ''Invalid size'')"
proof -
  let ?e = "sneaker\<lparr>p_categories := [''Shoes'']\<rparr>"
  let ?z = "sneaker\<lparr>p_sizes := [''M'', ''XL'']\<rparr>"
  let ?product = "\<lparr>g_row = \<lparr>prod_id = 1, prod_storeId = 1, prod_brandId = 1, prod_rest = ''Air''\<rparr>,
             g_categories = [''Shoes'', ''Sale''], g_sizes = [''M'']\<rparr>"
  have found: "brandRepo_find (tables stocked) ''Nike'' = [\<lparr>ref_id = 1, ref_name = ''Nike''\<rparr>]"
    by (simp add: stocked_eq brandRepo_find_def find_name_def)
  then have brand: "brandRepo_find (tables stocked) (p_brand ?e) =
      \<lparr>ref_id = 1, ref_name = ''Nike''\<rparr> # []"
    and brand_z: "brandRepo_find (tables stocked) (p_brand ?z) =
      \<lparr>ref_id = 1, ref_name = ''Nike''\<rparr> # []"
    by (simp_all add: sneaker_def)
  have got: "productRepo_getById (tables stocked) 1 = Some ?product"
    by (simp add: stocked_eq productRepo_getById_def category_names_def size_names_def)
  then have read: "productRepo_getById (tables stocked) (p_id ?e) = Some ?product"
    and read_z: "productRepo_getById (tables stocked) (p_id ?z) = Some ?product"
    by (simp_all add: sneaker_def)
  have differs: "length (p_categories ?e) \<noteq> length (g_categories ?product) \<or>
      (\<exists>i<length (p_categories ?e). p_categories ?e ! i \<noteq> g_categories ?product ! i)"
    by (simp add: sneaker_def)
  have differs_z: "(p_categories ?z = g_categories ?product \<or>
        length (resolved_prefix (categoryT (tables stocked)) (p_categories ?z)) =
          length (p_categories ?z)) \<and>
      (length (p_sizes ?z) \<noteq> length (g_sizes ?product) \<or>
       (\<exists>i<length (p_sizes ?z). p_sizes ?z ! i \<noteq> g_sizes ?product ! i))"
    by (simp add: sneaker_def)
  have ids: "resolved_prefix (categoryT (tables stocked)) (p_categories ?e) = [1]"
    by (simp add: stocked_eq sneaker_def resolve_def find_name_def)
  have ids_z: "resolved_prefix (sizeT (tables stocked)) (p_sizes ?z) = [1]"
    by (simp add: stocked_eq sneaker_def resolve_def find_name_def)
  from updateProduct_reconciles_changed [OF brand read] differs
  have "productCategoryT (tables (snd (updateProduct ?e stocked))) =
        filter (\<lambda>j. pc_productId j \<noteq> p_id ?e) (productCategoryT (tables stocked)) @
        map (\<lambda>i. \<lparr>pc_productId = p_id ?e, pc_categoryId = i\<rparr>)
          (resolved_prefix (categoryT (tables stocked)) (p_categories ?e))"
    and "filter (\<lambda>c. c = Delete ProductCategoryTable \<or> c = InsertOne ProductCategoryTable)
          (calls (snd (updateProduct ?e stocked))) =
        filter (\<lambda>c. c = Delete ProductCategoryTable \<or> c = InsertOne ProductCategoryTable)
          (calls stocked) @
        Delete ProductCategoryTable #
          replicate (length (resolved_prefix (categoryT (tables stocked)) (p_categories ?e)))
            (InsertOne ProductCategoryTable)"
    by (simp_all only: Let_def)
  then have c: "productCategoryT (tables (snd (updateProduct ?e stocked))) =
        [\<lparr>pc_productId = 1, pc_categoryId = 1\<rparr>]"
    "filter (\<lambda>c. c = Delete ProductCategoryTable \<or> c = InsertOne ProductCategoryTable)
          (calls (snd (updateProduct ?e stocked))) =
        [InsertOne ProductCategoryTable, InsertOne ProductCategoryTable,
         Delete ProductCategoryTable, InsertOne ProductCategoryTable]"
    unfolding ids by (simp_all add: stocked_eq sneaker_def)
  from updateProduct_reconciles_changed [OF brand_z read_z] differs_z
  have "productSizeT (tables (snd (updateProduct ?z stocked))) =
        filter (\<lambda>j. ps_productId j \<noteq> p_id ?z) (productSizeT (tables stocked)) @
        map (\<lambda>i. \<lparr>ps_productId = p_id ?z, ps_sizeId = i\<rparr>)
          (resolved_prefix (sizeT (tables stocked)) (p_sizes ?z))"
    and "filter (\<lambda>c. c = Delete ProductSizeTable \<or> c = InsertOne ProductSizeTable)
          (calls (snd (updateProduct ?z stocked))) =
        filter (\<lambda>c. c = Delete ProductSizeTable \<or> c = InsertOne ProductSizeTable)
          (calls stocked) @
        Delete ProductSizeTable #
          replicate (length (resolved_prefix (sizeT (tables stocked)) (p_sizes ?z)))
            (InsertOne ProductSizeTable)"
    and "fst (updateProduct ?z stocked) =
        (if length (resolved_prefix (sizeT (tables stocked)) (p_sizes ?z)) = length (p_sizes ?z)
         then Inr () else Inl (Error ''Invalid size''))"
    by (simp_all only: Let_def)
  then have z: "productSizeT (tables (snd (updateProduct ?z stocked))) =
        [\<lparr>ps_productId = 1, ps_sizeId = 1\<rparr>]"
    "filter (\<lambda>c. c = Delete ProductSizeTable \<or> c = InsertOne ProductSizeTable)
          (calls (snd (updateProduct ?z stocked))) =
        [InsertOne ProductSizeTable, Delete ProductSizeTable, InsertOne ProductSizeTable]"
    "fst (updateProduct ?z stocked) = Inl (Error ''Invalid size'')"
    unfolding ids_z by (simp_all add: stocked_eq sneaker_def)
  from found got c z show ?thesis
    by (intro conjI)
qed

section \<open>Explicit errors of product creation\<close>

lemma insertProduct_invalid_category:
  assumes "brandRepo_find (tables s) (p_brand product) = b # bs"
    and "productSeq (tables s) \<noteq> 0"
    and "list_ex (\<lambda>n. categoryRepo_find (tables s) n = []) (p_categories product)"
  shows "fst (insertProduct product i s) = Inl (Error ''Invalid category'')"
proof -
  from assms(3)
  have "\<not> list_all (\<lambda>n. find_name (categoryT (tables s)) n \<noteq> []) (p_categories product)"
    by (auto simp: categoryRepo_find_def list_ex_iff list_all_iff)
  then have "length (resolved_prefix (categoryT (tables s)) (p_categories product)) \<noteq>
      length (p_categories product)"
    by (simp add: resolved_prefix_all)
  with assms(1,2) show ?thesis
    by (simp add: insertProduct_def falsy_array_def productDBRepo_insertOne_def
        insertCategories_eq Let_def)
qed

lemma insertProduct_invalid_size:
  assumes "brandRepo_find (tables s) (p_brand product) = b # bs"
    and "productSeq (tables s) \<noteq> 0"
    and "list_all (\<lambda>n. categoryRepo_find (tables s) n \<noteq> []) (p_categories product)"
    and "list_ex (\<lambda>n. sizeRepo_find (tables s) n = []) (p_sizes product)"
  shows "fst (insertProduct product i s) = Inl (Error ''Invalid size'')"
proof -
  from assms(3)
  have c: "length (resolved_prefix (categoryT (tables s)) (p_categories product)) =
      length (p_categories product)"
    by (simp add: resolved_prefix_all categoryRepo_find_def)
  from assms(4)
  have "\<not> list_all (\<lambda>n. find_name (sizeT (tables s)) n \<noteq> []) (p_sizes product)"
    by (auto simp: sizeRepo_find_def list_ex_iff list_all_iff)
  then have "length (resolved_prefix (sizeT (tables s)) (p_sizes product)) \<noteq>
      length (p_sizes product)"
    by (simp add: resolved_prefix_all)
  with assms(1,2) c show ?thesis
    by (simp add: insertProduct_def falsy_array_def productDBRepo_insertOne_def
        insertCategories_eq insertSizes_eq Let_def)
qed

lemma insertProduct_no_brand:
  assumes "brandRepo_find (tables s) (p_brand product) = []"
  shows "insertProduct product i s = (Inl TypeError, s)"
  using assms by (simp add: insertProduct_def falsy_array_def)

text \<open>
  C9.  No brand is called Puma.  \<^verbatim>\<open>insertProduct\<close> tests \<^verbatim>\<open>!brandName\<close>, which is false
  for the empty array, and goes on to read \<^verbatim>\<open>brandName[0].id\<close>: the create ends in the
  runtime's TypeError and never raises ``No brand with that name''.  No row is inserted.
\<close>

theorem insertProduct_missing_brand:
  "insertProduct (sneaker\<lparr>p_brand := ''Puma''\<rparr>) 1 shop = (Inl TypeError, shop)
   \<and> brandRepo_find (tables shop) ''Puma'' = []"
  by (simp add: insertProduct_def falsy_array_def brandRepo_find_def find_name_def
      sneaker_def shop_def)

section \<open>Atomicity of product creation\<close>

lemma insertProduct_frame:
  "scope (snd (insertProduct product i s)) = scope s"
  "brandT (tables (snd (insertProduct product i s))) = brandT (tables s)"
  "categoryT (tables (snd (insertProduct product i s))) = categoryT (tables s)"
  "sizeT (tables (snd (insertProduct product i s))) = sizeT (tables s)"
  by (simp_all add: insertProduct_def falsy_array_def productDBRepo_insertOne_def
      insertCategories_eq insertSizes_eq Let_def split: list.splits)

lemma post_loop_frame:
  "scope (snd (post_loop i products acc s)) = scope s
   \<and> brandT (tables (snd (post_loop i products acc s))) = brandT (tables s)
   \<and> categoryT (tables (snd (post_loop i products acc s))) = categoryT (tables s)
   \<and> sizeT (tables (snd (post_loop i products acc s))) = sizeT (tables s)"
proof (induction products arbitrary: acc s)
  case Nil
  show ?case by simp
next
  case (Cons product products)
  obtain r s1 where ip: "insertProduct product i s = (r, s1)"
    by (cases "insertProduct product i s")
  have fr: "scope s1 = scope s" "brandT (tables s1) = brandT (tables s)"
    "categoryT (tables s1) = categoryT (tables s)" "sizeT (tables s1) = sizeT (tables s)"
    using insertProduct_frame [of product i s] by (simp_all add: ip)
  show ?case
  proof (cases r)
    case (Inl e)
    with fr show ?thesis by (simp add: ip)
  next
    case (Inr insertId)
    with fr Cons.IH [of "acc @ [productRepo_getById (tables s1) insertId]" s1]
    show ?thesis by (simp add: ip)
  qed
qed

lemma ProductController_post_error_restores:
  assumes "fst (ProductController_post idManager products s) = Inl e"
  shows "tables (snd (ProductController_post idManager products s)) = tables s"
proof (cases "storeRepo_find (tables s) idManager")
  case Nil
  then show ?thesis by (simp add: ProductController_post_def)
next
  case (Cons st others)
  show ?thesis
  proof (cases "st_id st = 0")
    case True
    with Cons show ?thesis by (simp add: ProductController_post_def)
  next
    case False
    obtain r s1 where pl: "post_loop (st_id st) products [] (beginTransaction s) = (r, s1)"
      by (cases "post_loop (st_id st) products [] (beginTransaction s)")
    have "scope s1 = scope (beginTransaction s)"
      using post_loop_frame [of "st_id st" products "[]" "beginTransaction s"]
      by (simp add: pl)
    then have sc: "scope s1 = Some (tables s)"
      by (simp add: beginTransaction_def)
    from assms Cons False pl obtain e' where "r = Inl e'"
      by (cases r) (simp_all add: ProductController_post_def)
    with Cons False pl sc show ?thesis
      by (simp add: ProductController_post_def commitTransaction_def rollbackTransaction_def)
  qed
qed

lemma unresolved_frame:
  assumes "brandT t' = brandT t" "categoryT t' = categoryT t" "sizeT t' = sizeT t"
  shows "unresolved t' product = unresolved t product"
  using assms by (simp add: unresolved_def brandRepo_find_def categoryRepo_find_def sizeRepo_find_def)

lemma insertProduct_unresolved:
  assumes "unresolved (tables s) product"
  shows "\<exists>e. fst (insertProduct product i s) = Inl e"
proof (cases "brandRepo_find (tables s) (p_brand product)")
  case Nil
  then show ?thesis by (simp add: insertProduct_def falsy_array_def)
next
  case (Cons b bs)
  let ?cs = "resolved_prefix (categoryT (tables s)) (p_categories product)"
  let ?zs = "resolved_prefix (sizeT (tables s)) (p_sizes product)"
  from assms Cons have "\<not> list_all (\<lambda>n. find_name (categoryT (tables s)) n \<noteq> []) (p_categories product)
      \<or> \<not> list_all (\<lambda>n. find_name (sizeT (tables s)) n \<noteq> []) (p_sizes product)"
    by (auto simp: unresolved_def categoryRepo_find_def sizeRepo_find_def list_ex_iff list_all_iff)
  then have "length ?cs \<noteq> length (p_categories product) \<or> length ?zs \<noteq> length (p_sizes product)"
    by (simp add: resolved_prefix_all)
  with Cons show ?thesis
    by (auto simp: insertProduct_def falsy_array_def productDBRepo_insertOne_def
        insertCategories_eq insertSizes_eq Let_def)
qed

lemma post_loop_unresolved:
  assumes "list_ex (unresolved (tables s)) products"
  shows "\<exists>e. fst (post_loop i products acc s) = Inl e"
  using assms
proof (induction products arbitrary: acc s)
  case Nil
  then show ?case by simp
next
  case (Cons product products)
  obtain r s1 where ip: "insertProduct product i s = (r, s1)"
    by (cases "insertProduct product i s")
  show ?case
  proof (cases r)
    case (Inl e)
    with ip show ?thesis by simp
  next
    case (Inr insertId)
    with ip insertProduct_unresolved [of s product i] have "\<not> unresolved (tables s) product"
      by auto
    with Cons.prems have "list_ex (unresolved (tables s)) products"
      by simp
    moreover have "unresolved (tables s1) = unresolved (tables s)"
      using insertProduct_frame [of product i s] unresolved_frame [of "tables s1" "tables s"]
      by (auto simp: ip)
    ultimately have "list_ex (unresolved (tables s1)) products"
      by simp
    from Cons.IH [OF this, of "acc @ [productRepo_getById (tables s1) insertId]"]
    show ?thesis using ip Inr by simp
  qed
qed

lemma ProductController_post_unresolved:
  assumes "list_ex (unresolved (tables s)) products"
  shows "\<exists>e. fst (ProductController_post idManager products s) = Inl e"
proof (cases "storeRepo_find (tables s) idManager")
  case Nil
  then show ?thesis by (simp add: ProductController_post_def)
next
  case (Cons st others)
  have "unresolved (tables (beginTransaction s)) = unresolved (tables s)"
    by (simp add: beginTransaction_def)
  with assms have "list_ex (unresolved (tables (beginTransaction s))) products"
    by simp
  from post_loop_unresolved [OF this, of "st_id st" "[]"]
  obtain e where "fst (post_loop (st_id st) products [] (beginTransaction s)) = Inl e"
    by blast
  with Cons show ?thesis
    by (cases "post_loop (st_id st) products [] (beginTransaction s)")
      (simp add: ProductController_post_def)
qed

text \<open>
  C3.  A create request in which some product names a brand, a category or a size that has
  no row ends in an error, and after it the Product, ProductCategory and ProductSize tables
  hold exactly the rows they held before the request: no product row of the request and
  no join row of it remains, also not those that were inserted before the name that failed.
  The Unit of Work is the one of the spec, for which a rollback discards every write since
  the begin.
\<close>

theorem ProductController_post_atomic:
  assumes "list_ex (unresolved (tables s)) products"
  shows "(\<exists>e. fst (ProductController_post idManager products s) = Inl e)
         \<and> productT (tables (snd (ProductController_post idManager products s))) =
             productT (tables s)
         \<and> productCategoryT (tables (snd (ProductController_post idManager products s))) =
             productCategoryT (tables s)
         \<and> productSizeT (tables (snd (ProductController_post idManager products s))) =
             productSizeT (tables s)"
proof -
  from ProductController_post_unresolved [OF assms, of idManager]
  obtain e where e: "fst (ProductController_post idManager products s) = Inl e"
    by blast
  from ProductController_post_error_restores [OF e]
  have "tables (snd (ProductController_post idManager products s)) = tables s" .
  with e show ?thesis by simp
qed

text \<open>
  The second category of the request has no row.  The product row and the first join row
  are inserted, the request fails, and the three tables are empty as before.
\<close>

theorem ProductController_post_atomic_witness:
  "list_ex (unresolved (tables shop)) [sneaker\<lparr>p_categories := [''Shoes'', ''Boots'']\<rparr>]
   \<and> fst (ProductController_post 7 [sneaker\<lparr>p_categories := [''Shoes'', ''Boots'']\<rparr>] shop) =
       Inl (Rethrown (Error ''Invalid category''))
   \<and> calls (snd (ProductController_post 7 [sneaker\<lparr>p_categories := [''Shoes'', ''Boots'']\<rparr>] shop)) =
       [BeginTransaction, InsertOne ProductTable, InsertOne ProductCategoryTable,
        RollbackTransaction, CommitTransaction]
   \<and> productT (tables (snd (ProductController_post 7
         [sneaker\<lparr>p_categories := [''Shoes'', ''Boots'']\<rparr>] shop))) = []
   \<and> productCategoryT (tables (snd (ProductController_post 7
         [sneaker\<lparr>p_categories := [''Shoes'', ''Boots'']\<rparr>] shop))) = []
   \<and> productSizeT (tables (snd (ProductController_post 7
         [sneaker\<lparr>p_categories := [''Shoes'', ''Boots'']\<rparr>] shop))) = []"
proof -
  have u: "list_ex (unresolved (tables shop)) [sneaker\<lparr>p_categories := [''Shoes'', ''Boots'']\<rparr>]"
    by (simp add: unresolved_def categoryRepo_find_def find_name_def sneaker_def shop_def)
  have run: "fst (ProductController_post 7 [sneaker\<lparr>p_categories := [''Shoes'', ''Boots'']\<rparr>] shop) =
        Inl (Rethrown (Error ''Invalid category''))
      \<and> calls (snd (ProductController_post 7 [sneaker\<lparr>p_categories := [''Shoes'', ''Boots'']\<rparr>] shop)) =
        [BeginTransaction, InsertOne ProductTable, InsertOne ProductCategoryTable,
         RollbackTransaction, CommitTransaction]"
    by (simp add: ProductController_post_def insertProduct_def falsy_array_def uow_defs
        repo_defs sneaker_def shop_def Let_def)
  have rows: "productT (tables shop) = [] \<and> productCategoryT (tables shop) = []
      \<and> productSizeT (tables shop) = []"
    by (simp add: shop_def)
  show ?thesis
    using u run rows ProductController_post_atomic [OF u, of 7]
    by simp
qed

section \<open>Unit-of-Work calls of the product handlers\<close>

lemma filter_is_uow_replicate:
  "\<not> is_uow c \<Longrightarrow> filter is_uow (replicate n c) = []"
  by (induction n) simp_all

lemma insertProduct_uow:
  "filter is_uow (calls (snd (insertProduct product i s))) = filter is_uow (calls s)"
  by (simp add: insertProduct_def falsy_array_def productDBRepo_insertOne_def
      insertCategories_eq insertSizes_eq Let_def is_uow_def filter_is_uow_replicate
      split: list.splits)

lemma post_loop_uow:
  "filter is_uow (calls (snd (post_loop i products acc s))) = filter is_uow (calls s)"
proof (induction products arbitrary: acc s)
  case Nil
  show ?case by simp
next
  case (Cons product products)
  obtain r s1 where ip: "insertProduct product i s = (r, s1)"
    by (cases "insertProduct product i s")
  have "filter is_uow (calls s1) = filter is_uow (calls s)"
    using insertProduct_uow [of product i s] by (simp add: ip)
  with Cons.IH [of _ s1] show ?case
    by (cases r) (simp_all add: ip)
qed

lemma updateProduct_uow:
  "filter is_uow (calls (snd (updateProduct e s))) = filter is_uow (calls s)"
proof (cases "brandRepo_find (tables s) (p_brand e)")
  case Nil
  then show ?thesis by (simp add: updateProduct_def)
next
  case (Cons b bs)
  define s1 where "s1 = productDBRepo_update
      \<lparr>u_id = p_id e, u_storeId = None, u_brandId = Some (ref_id b), u_rest = p_rest e\<rparr> s"
  have s1: "filter is_uow (calls s1) = filter is_uow (calls s)"
    by (simp add: s1_def productDBRepo_update_frame is_uow_def)
  show ?thesis
  proof (cases "filter (\<lambda>row. prod_id row = p_id e) (productT (tables s)) = []")
    case True
    from updateProduct_missing [OF Cons True] s1 show ?thesis
      by (simp add: s1_def)
  next
    case False
    have rc: "filter is_uow (calls (snd (reconcileCategories i d p t))) = filter is_uow (calls t)"
      for i d p and t :: "'a state"
      by (simp add: reconcileCategories_eq is_uow_def filter_is_uow_replicate)
    have rs: "filter is_uow (calls (snd (reconcileSizes i d p t))) = filter is_uow (calls t)"
      for i d p and t :: "'a state"
      by (simp add: reconcileSizes_eq is_uow_def filter_is_uow_replicate)
    obtain r2 s2 where r2: "reconcileCategories (p_id e) (p_categories e)
        (category_names (tables s1) (p_id e)) s1 = (r2, s2)"
      by (cases "reconcileCategories (p_id e) (p_categories e)
        (category_names (tables s1) (p_id e)) s1")
    have s2: "filter is_uow (calls s2) = filter is_uow (calls s)"
      using rc [of "p_id e" "p_categories e" "category_names (tables s1) (p_id e)" s1] s1
      by (simp add: r2)
    from updateProduct_found [OF Cons False s1_def] r2 s2 rs show ?thesis
      by (cases r2) simp_all
  qed
qed

text \<open>
  The Unit-of-Work calls of a request, on both paths: a create or an update that returns
  issues a begin and a commit; one that raises inside the scope issues a begin, a rollback
  and then a commit.
\<close>

lemma ProductController_post_uow:
  assumes "storeRepo_find (tables s) idManager = st # others" and "st_id st \<noteq> 0"
  shows "filter is_uow (calls (snd (ProductController_post idManager products s))) =
     filter is_uow (calls s) @
       (case fst (ProductController_post idManager products s) of
          Inl _ \<Rightarrow> [BeginTransaction, RollbackTransaction, CommitTransaction]
        | Inr _ \<Rightarrow> [BeginTransaction, CommitTransaction])"
proof -
  obtain r s1 where pl: "post_loop (st_id st) products [] (beginTransaction s) = (r, s1)"
    by (cases "post_loop (st_id st) products [] (beginTransaction s)")
  have "filter is_uow (calls s1) = filter is_uow (calls (beginTransaction s))"
    using post_loop_uow [of "st_id st" products "[]" "beginTransaction s"] by (simp add: pl)
  then have "filter is_uow (calls s1) = filter is_uow (calls s) @ [BeginTransaction]"
    by (simp add: beginTransaction_def is_uow_def)
  with assms pl show ?thesis
    by (cases r)
      (simp_all add: ProductController_post_def commitTransaction_def rollbackTransaction_def
        is_uow_def)
qed

lemma ProductController_update_uow:
  "filter is_uow (calls (snd (ProductController_update entity s))) =
     filter is_uow (calls s) @
       (case fst (ProductController_update entity s) of
          Inl _ \<Rightarrow> [BeginTransaction, RollbackTransaction, CommitTransaction]
        | Inr _ \<Rightarrow> [BeginTransaction, CommitTransaction])"
proof -
  obtain r s1 where up: "updateProduct entity (beginTransaction s) = (r, s1)"
    by (cases "updateProduct entity (beginTransaction s)")
  have "filter is_uow (calls s1) = filter is_uow (calls (beginTransaction s))"
    using updateProduct_uow [of entity "beginTransaction s"] by (simp add: up)
  then have "filter is_uow (calls s1) = filter is_uow (calls s) @ [BeginTransaction]"
    by (simp add: beginTransaction_def is_uow_def)
  with up show ?thesis
    by (cases r)
      (simp_all add: ProductController_update_def commitTransaction_def
        rollbackTransaction_def is_uow_def Let_def)
qed

text \<open>
  C4.  No category is called Hats.  A create request for a product of the categories Shoes
  and Hats opens a scope, inserts the product row and the first join row, fails on the
  second category, and then issues two terminal calls on the scope: the rollback, and a
  commit after it.  An update request that fails does the same.
\<close>

theorem ProductController_terminal_calls_on_error:
  "calls (snd (ProductController_post 7 [sneaker\<lparr>p_categories := [''Shoes'', ''Hats'']\<rparr>] shop)) =
     [BeginTransaction, InsertOne ProductTable, InsertOne ProductCategoryTable,
      RollbackTransaction, CommitTransaction]
   \<and> fst (ProductController_post 7 [sneaker\<lparr>p_categories := [''Shoes'', ''Hats'']\<rparr>] shop) =
       Inl (Rethrown (Error ''Invalid category''))
   \<and> calls (snd (ProductController_update (sneaker\<lparr>p_brand := ''Puma''\<rparr>) shop)) =
       [BeginTransaction, RollbackTransaction, CommitTransaction]
   \<and> fst (ProductController_update (sneaker\<lparr>p_brand := ''Puma''\<rparr>) shop) =
       Inl (Rethrown TypeError)"
  by (simp add: ProductController_post_def ProductController_update_def insertProduct_def
      updateProduct_def falsy_array_def uow_defs repo_defs sneaker_def shop_def Let_def)

section \<open>Store colours on create\<close>

text \<open>
  C6.  A store-create request whose payload omits the colours appends exactly two
  StoreColor rows, both with the id of the store row the same request inserted: a PRIMARY
  row with hue, sat and light 12 and a SECONDARY row with hue, sat and light 240.
\<close>

theorem createStore_default_colors:
  assumes "s_colors store = None"
  shows "storeColorT (tables (snd (createStore store s))) =
           storeColorT (tables s) @
             [\<lparr>sc_id = storeColorSeq (tables s), sc_storeId = storeSeq (tables s),
               sc_type = PRIMARY, sc_color = Some \<lparr>hue = 12, sat = 12, light = 12\<rparr>\<rparr>,
              \<lparr>sc_id = Suc (storeColorSeq (tables s)), sc_storeId = storeSeq (tables s),
               sc_type = SECONDARY, sc_color = Some \<lparr>hue = 240, sat = 240, light = 240\<rparr>\<rparr>]
         \<and> storeT (tables (snd (createStore store s))) =
             storeT (tables s) @
               [\<lparr>st_id = storeSeq (tables s), st_name = s_name store,
                 st_managerId = s_managerId store\<rparr>]
         \<and> calls (snd (createStore store s)) =
             calls s @ [InsertOne StoreTable, InsertOne StoreColorTable, InsertOne StoreColorTable]"
  using assms
  by (simp add: createStore_def storeRepo_insertOne_def storeColorRepo_insertOne_def Let_def)

theorem createStore_default_colors_witness:
  "storeColorT (tables (snd (createStore \<lparr>s_name = ''Lime'', s_managerId = 8, s_colors = None\<rparr> shop))) =
     [\<lparr>sc_id = 1, sc_storeId = 2, sc_type = PRIMARY,
       sc_color = Some \<lparr>hue = 12, sat = 12, light = 12\<rparr>\<rparr>,
      \<lparr>sc_id = 2, sc_storeId = 2, sc_type = SECONDARY,
       sc_color = Some \<lparr>hue = 240, sat = 240, light = 240\<rparr>\<rparr>]
   \<and> storeT (tables (snd (createStore \<lparr>s_name = ''Lime'', s_managerId = 8, s_colors = None\<rparr> shop))) =
       [\<lparr>st_id = 1, st_name = ''Orange'', st_managerId = 7\<rparr>,
        \<lparr>st_id = 2, st_name = ''Lime'', st_managerId = 8\<rparr>]"
  using createStore_default_colors
    [of "\<lparr>s_name = ''Lime'', s_managerId = 8, s_colors = None\<rparr>" shop]
  by (simp add: shop_def)

section \<open>Store update without colours\<close>

text \<open>
  C10.  A store-update request whose payload has no colours object, sent by a caller who
  manages a store, first issues the update of the store row and then fails with the
  runtime's TypeError on reading \<^verbatim>\<open>colors.primary\<close>.  The name and manager of the payload
  are in the store row afterwards, no colour row is written, and the only call issued is
  the store update: no Unit-of-Work scope is opened, so nothing undoes the write.
\<close>

theorem StoreController_update_without_colors:
  assumes "s_colors store = None"
    and "storeRepo_find (tables s) idManager = st # others"
  shows "fst (StoreController_update idManager store s) = Inl TypeError
         \<and> storeT (tables (snd (StoreController_update idManager store s))) =
             map (\<lambda>r. if st_id r = st_id st
                       then r\<lparr>st_name := s_name store, st_managerId := s_managerId store\<rparr>
                       else r) (storeT (tables s))
         \<and> storeColorT (tables (snd (StoreController_update idManager store s))) =
             storeColorT (tables s)
         \<and> calls (snd (StoreController_update idManager store s)) =
             calls s @ [Update StoreTable]
         \<and> scope (snd (StoreController_update idManager store s)) = scope s"
  using assms
  by (simp add: StoreController_update_def storeRepo_update_def Let_def)

theorem StoreController_update_without_colors_witness:
  "storeRepo_find (tables shop) 7 = [\<lparr>st_id = 1, st_name = ''Orange'', st_managerId = 7\<rparr>]
   \<and> fst (StoreController_update 7 \<lparr>s_name = ''Lime'', s_managerId = 7, s_colors = None\<rparr> shop) =
       Inl TypeError
   \<and> storeT (tables (snd (StoreController_update 7
         \<lparr>s_name = ''Lime'', s_managerId = 7, s_colors = None\<rparr> shop))) =
       [\<lparr>st_id = 1, st_name = ''Lime'', st_managerId = 7\<rparr>]
   \<and> calls (snd (StoreController_update 7
         \<lparr>s_name = ''Lime'', s_managerId = 7, s_colors = None\<rparr> shop)) = [Update StoreTable]"
proof -
  have found: "storeRepo_find (tables shop) 7 =
      \<lparr>st_id = 1, st_name = ''Orange'', st_managerId = 7\<rparr> # []"
    by (simp add: shop_def storeRepo_find_def)
  show ?thesis
    using found StoreController_update_without_colors
      [of "\<lparr>s_name = ''Lime'', s_managerId = 7, s_colors = None\<rparr>" shop 7, OF _ found]
    by (simp add: shop_def)
qed

section \<open>Store colour update without a colour row\<close>

lemma StoreController_update_no_color_row:
  assumes "storeRepo_find (tables s) idManager = st # others"
    and "s_colors store = Some c"
    and "primary c = Some col"
    and "storeColorRepo_find (tables s) (st_id st) PRIMARY = []"
  shows "fst (StoreController_update idManager store s) = Inl TypeError
         \<and> storeColorT (tables (snd (StoreController_update idManager store s))) =
             storeColorT (tables s)"
proof -
  have "storeColorRepo_find (tables (storeRepo_update store (st_id st) s)) (st_id st) PRIMARY = []"
    using assms(4) by (simp add: storeColorRepo_find_def storeRepo_update_def Let_def)
  with assms(1,2,3) show ?thesis
    by (simp add: StoreController_update_def update_color_def storeRepo_update_def Let_def)
qed

text \<open>
  C8.  The store of user 7 has no colour row.  An update that carries a primary colour
  reads \<^verbatim>\<open>id\<close> of the first element of the empty result of \<^verbatim>\<open>find\<close>: the request ends
  in the runtime's TypeError, not in an error the handler raises itself.  The store row has
  been written by then; the colour table is as before.
\<close>

theorem StoreController_update_missing_color_row:
  "fst (StoreController_update 7
          \<lparr>s_name = ''Orange'', s_managerId = 7,
           s_colors = Some \<lparr>primary = Some \<lparr>hue = 1, sat = 2, light = 3\<rparr>, secondary = None\<rparr>\<rparr>
          shop) = Inl TypeError
   \<and> storeColorT (tables (snd (StoreController_update 7
          \<lparr>s_name = ''Orange'', s_managerId = 7,
           s_colors = Some \<lparr>primary = Some \<lparr>hue = 1, sat = 2, light = 3\<rparr>, secondary = None\<rparr>\<rparr>
          shop))) = []
   \<and> calls (snd (StoreController_update 7
          \<lparr>s_name = ''Orange'', s_managerId = 7,
           s_colors = Some \<lparr>primary = Some \<lparr>hue = 1, sat = 2, light = 3\<rparr>, secondary = None\<rparr>\<rparr>
          shop)) = [Update StoreTable]"
  by (simp add: StoreController_update_def update_color_def storeRepo_find_def
      storeRepo_update_def storeColorRepo_find_def shop_def Let_def)

section \<open>The colour invariant\<close>

lemma store_colors_keys:
  assumes "map (\<lambda>c. (sc_storeId c, sc_type c)) (storeColorT t') =
           map (\<lambda>c. (sc_storeId c, sc_type c)) (storeColorT t)"
  shows "colors_ok t' i = colors_ok t i"
proof -
  have len: "length (filter P (map (\<lambda>c. (sc_storeId c, sc_type c)) xs)) =
      length (filter (\<lambda>c. P (sc_storeId c, sc_type c)) xs)" for P and xs :: "StoreColor list"
    by (simp add: filter_map o_def)
  have "length (filter (\<lambda>c. P (sc_storeId c, sc_type c)) (storeColorT t')) =
      length (filter (\<lambda>c. P (sc_storeId c, sc_type c)) (storeColorT t))" for P
    using assms len [of P "storeColorT t'"] len [of P "storeColorT t"] by simp
  from this [of "\<lambda>k. fst k = i"] this [of "\<lambda>k. fst k = i \<and> snd k = PRIMARY"]
    this [of "\<lambda>k. fst k = i \<and> snd k = SECONDARY"]
  show ?thesis
    by (simp add: colors_ok_def store_colors_def)
qed

lemma update_color_keys:
  "map (\<lambda>c. (sc_storeId c, sc_type c)) (storeColorT (tables (snd (update_color i ty color s)))) =
     map (\<lambda>c. (sc_storeId c, sc_type c)) (storeColorT (tables s))
   \<and> storeSeq (tables (snd (update_color i ty color s))) = storeSeq (tables s)"
  by (auto simp: update_color_def storeColorRepo_update_def Let_def
      split: option.splits list.splits)

lemma StoreController_update_keys:
  "map (\<lambda>c. (sc_storeId c, sc_type c))
      (storeColorT (tables (snd (StoreController_update idManager store s)))) =
     map (\<lambda>c. (sc_storeId c, sc_type c)) (storeColorT (tables s))
   \<and> storeSeq (tables (snd (StoreController_update idManager store s))) = storeSeq (tables s)"
proof (cases "storeRepo_find (tables s) idManager")
  case Nil
  then show ?thesis by (simp add: StoreController_update_def)
next
  case (Cons st others)
  define s1 where "s1 = storeRepo_update store (st_id st) s"
  have s1: "storeColorT (tables s1) = storeColorT (tables s)" "storeSeq (tables s1) = storeSeq (tables s)"
    by (simp_all add: s1_def storeRepo_update_def Let_def)
  show ?thesis
  proof (cases "s_colors store")
    case None
    with Cons s1 show ?thesis
      by (simp add: StoreController_update_def s1_def [symmetric] Let_def)
  next
    case (Some c)
    obtain r s2 where p: "update_color (st_id st) PRIMARY (primary c) s1 = (r, s2)"
      by (cases "update_color (st_id st) PRIMARY (primary c) s1")
    have s2: "map (\<lambda>c. (sc_storeId c, sc_type c)) (storeColorT (tables s2)) =
        map (\<lambda>c. (sc_storeId c, sc_type c)) (storeColorT (tables s))"
      "storeSeq (tables s2) = storeSeq (tables s)"
      using update_color_keys [of "st_id st" PRIMARY "primary c" s1] s1 by (simp_all add: p)
    show ?thesis
    proof (cases r)
      case (Inl e)
      with Cons Some p s2 show ?thesis
        by (simp add: StoreController_update_def s1_def [symmetric] Let_def)
    next
      case (Inr u)
      with Cons Some p s2 update_color_keys [of "st_id st" SECONDARY "secondary c" s2]
      show ?thesis
        by (simp add: StoreController_update_def s1_def [symmetric] Let_def)
    qed
  qed
qed

lemma createStore_tables:
  "storeColorT (tables (snd (createStore store s))) =
     storeColorT (tables s) @
       [\<lparr>sc_id = storeColorSeq (tables s), sc_storeId = storeSeq (tables s), sc_type = PRIMARY,
         sc_color = primary (case s_colors store of
            None \<Rightarrow> \<lparr>primary = Some \<lparr>hue = 12, sat = 12, light = 12\<rparr>,
                     secondary = Some \<lparr>hue = 240, sat = 240, light = 240\<rparr>\<rparr>
          | Some c \<Rightarrow> c)\<rparr>,
        \<lparr>sc_id = Suc (storeColorSeq (tables s)), sc_storeId = storeSeq (tables s),
         sc_type = SECONDARY,
         sc_color = secondary (case s_colors store of
            None \<Rightarrow> \<lparr>primary = Some \<lparr>hue = 12, sat = 12, light = 12\<rparr>,
                     secondary = Some \<lparr>hue = 240, sat = 240, light = 240\<rparr>\<rparr>
          | Some c \<Rightarrow> c)\<rparr>]
   \<and> storeSeq (tables (snd (createStore store s))) = Suc (storeSeq (tables s))"
  by (simp add: createStore_def storeRepo_insertOne_def storeColorRepo_insertOne_def Let_def)

lemma store_request_step_invariant:
  assumes "store_seq_ahead (tables s)" and "\<forall>i. colors_ok (tables s) i"
  shows "store_seq_ahead (tables (store_request_step req s))
         \<and> (\<forall>i. colors_ok (tables (store_request_step req s)) i)"
proof (cases req)
  case (Create store)
  have none: "store_colors (tables s) (storeSeq (tables s)) = []"
    using assms(1)
    by (auto simp: store_seq_ahead_def store_colors_def list_all_iff filter_empty_conv)
  have ahead: "store_seq_ahead (tables (snd (createStore store s)))"
    using assms(1) createStore_tables [of store s]
    by (auto simp: store_seq_ahead_def list_all_iff)
  have "colors_ok (tables (snd (createStore store s))) i" for i
  proof (cases "i = storeSeq (tables s)")
    case True
    with none createStore_tables [of store s] show ?thesis
      by (simp add: colors_ok_def store_colors_def)
  next
    case False
    with assms(2) createStore_tables [of store s] show ?thesis
      by (simp add: colors_ok_def store_colors_def)
  qed
  with ahead Create show ?thesis by simp
next
  case (UpdateBy idManager store)
  have k: "map (\<lambda>c. (sc_storeId c, sc_type c))
      (storeColorT (tables (snd (StoreController_update idManager store s)))) =
     map (\<lambda>c. (sc_storeId c, sc_type c)) (storeColorT (tables s))"
    and q: "storeSeq (tables (snd (StoreController_update idManager store s))) = storeSeq (tables s)"
    using StoreController_update_keys [of idManager store s] by simp_all
  have "map sc_storeId (storeColorT (tables (snd (StoreController_update idManager store s)))) =
      map sc_storeId (storeColorT (tables s))"
    using arg_cong [OF k, of "map fst"] by (simp add: o_def)
  then have "set (map sc_storeId (storeColorT (tables (snd (StoreController_update idManager store s))))) =
      set (map sc_storeId (storeColorT (tables s)))"
    by simp
  then have "\<forall>c\<in>set (storeColorT (tables (snd (StoreController_update idManager store s)))).
      sc_storeId c \<in> sc_storeId ` set (storeColorT (tables s))"
    by auto
  with assms(1) q have "store_seq_ahead (tables (snd (StoreController_update idManager store s)))"
    by (auto simp: store_seq_ahead_def list_all_iff)
  with assms(2) store_colors_keys [OF k] UpdateBy show ?thesis
    by simp
qed

lemma store_requests_invariant:
  assumes "store_seq_ahead (tables s)" and "\<forall>i. colors_ok (tables s) i"
  shows "store_seq_ahead (tables (fold store_request_step reqs s))
         \<and> (\<forall>i. colors_ok (tables (fold store_request_step reqs s)) i)"
  using assms
proof (induction reqs arbitrary: s)
  case Nil
  then show ?case by simp
next
  case (Cons req reqs)
  from store_request_step_invariant [OF Cons.prems, of req]
  have "store_seq_ahead (tables (store_request_step req s))"
    and "\<forall>i. colors_ok (tables (store_request_step req s)) i"
    by simp_all
  from Cons.IH [OF this] show ?case by simp
qed

text \<open>
  C7.  Take tables in which every store has no colour row or exactly two, at most one of
  each type, and in which the store sequence is ahead of the store ids the colour rows
  refer to.  After any sequence of store create and store update requests, failed ones
  included, every store still has no colour row or exactly two, at most one PRIMARY and
  at most one SECONDARY.  A create appends one PRIMARY and one SECONDARY row for the new
  store; an update leaves the number of colour rows, and the store and type of each, as
  they were.
\<close>

theorem store_color_invariant:
  assumes "store_seq_ahead (tables s)" and "\<forall>i. colors_ok (tables s) i"
  shows "(\<forall>i. colors_ok (tables (fold store_request_step reqs s)) i)
         \<and> (\<forall>store (s' :: 'a state). map sc_type (store_colors (tables (snd (createStore store s')))
                            (storeSeq (tables s'))) =
                map sc_type (store_colors (tables s') (storeSeq (tables s'))) @ [PRIMARY, SECONDARY])
         \<and> (\<forall>idManager store (s' :: 'a state).
                map (\<lambda>c. (sc_storeId c, sc_type c))
                  (storeColorT (tables (snd (StoreController_update idManager store s')))) =
                map (\<lambda>c. (sc_storeId c, sc_type c)) (storeColorT (tables s')))"
proof -
  have "map sc_type (store_colors (tables (snd (createStore store s'))) (storeSeq (tables s'))) =
      map sc_type (store_colors (tables s') (storeSeq (tables s'))) @ [PRIMARY, SECONDARY]"
    for store and s' :: "'a state"
    using createStore_tables [of store s'] by (simp add: store_colors_def)
  with store_requests_invariant [OF assms, of reqs] StoreController_update_keys
  show ?thesis by blast
qed

text \<open>
  From the shop, whose only store has no colour row, run the four requests of
  \<open>store_requests\<close>.  Store 1 has no colour row afterwards, and the stores 2 and 3
  have one PRIMARY and one SECONDARY row each.
\<close>

theorem store_color_invariant_witness:
  "store_seq_ahead (tables shop)
   \<and> colors_ok (tables (fold store_request_step store_requests shop)) 1
   \<and> colors_ok (tables (fold store_request_step store_requests shop)) 2
   \<and> map (\<lambda>c. (sc_storeId c, sc_type c))
         (storeColorT (tables (fold store_request_step store_requests shop))) =
       [(2, PRIMARY), (2, SECONDARY), (3, PRIMARY), (3, SECONDARY)]"
proof -
  have ahead: "store_seq_ahead (tables shop)"
    by (simp add: store_seq_ahead_def shop_def)
  have ok: "\<forall>i. colors_ok (tables shop) i"
    by (simp add: colors_ok_def store_colors_def shop_def)
  have run: "map (\<lambda>c. (sc_storeId c, sc_type c))
         (storeColorT (tables (fold store_request_step store_requests shop))) =
       [(2, PRIMARY), (2, SECONDARY), (3, PRIMARY), (3, SECONDARY)]"
    by (simp add: store_requests_def createStore_def StoreController_update_def
        update_color_def repo_defs shop_def Let_def)
  from store_color_invariant [OF ahead ok, of store_requests]
  have "colors_ok (tables (fold store_request_step store_requests shop)) 1"
    and "colors_ok (tables (fold store_request_step store_requests shop)) 2"
    by blast+
  with ahead run show ?thesis
    by (intro conjI)
qed

end
